theory Spec2Isabelle
  imports Complex_Main
begin

section \<open>The template and task API of app.py\<close>

text \<open>
  The Flask handlers of \<^verbatim>\<open>src/app.py\<close> are embedded as functions from the store
  (the three MongoDB collections) and the request to a response and the new store.

  \<^item> A request body is what \<^verbatim>\<open>request.get_json()\<close> returned: any JSON value. The handlers
    hand the members of the body on as they are, so a member may be a string, a number, a
    boolean, null, an array or an object.
  \<^item> A stored document carries the \<^verbatim>\<open>_id\<close> the driver generated (written \<open>doc_id\<close>,
    since an identifier cannot start with an underscore), the \<^verbatim>\<open>created_at\<close> timestamp
    every insert of the source sets, the optional \<^verbatim>\<open>updated_at\<close> timestamp, and its
    other members as a map to JSON values.
  \<^item> What the handlers take from libraries, from the server and from the clock is a
    parameter, the environment of one request. What is documented of the libraries is
    written out: which values the \<^verbatim>\<open>ObjectId\<close> constructor takes, that the password hash
    wants a string, which values BSON cannot encode, how the store compares values and what
    \<^verbatim>\<open>$ne\<close> and \<^verbatim>\<open>$eq\<close> select.
  \<^item> An exception is the text \<^verbatim>\<open>str(e)\<close> of its message; every handler body runs under
    \<^verbatim>\<open>except Exception as e\<close>, which turns it into a 500 response carrying that text.
  \<^item> The handlers below \<^verbatim>\<open>@jwt_required()\<close> receive \<^verbatim>\<open>get_jwt_identity()\<close>, a string, as
    the argument \<open>current_user\<close>.
  \<^item> The application is taken as configured and connected: \<^verbatim>\<open>MONGO_URI\<close> reaches a
    server, so that \<^verbatim>\<open>db\<close> exists, and \<^verbatim>\<open>JWT_SECRET_KEY\<close> is set, so that a token can
    be signed.
\<close>

subsection \<open>JSON values\<close>

text \<open>A number without fraction or exponent is a Python \<^verbatim>\<open>int\<close> of any size; another
  number is a \<^verbatim>\<open>float\<close>, kept as the number it denotes. An object is the list of its
  members, the names distinct.\<close>

datatype json =
    JNull
  | JBool bool
  | JNum int
  | JFloat rat
  | JStr string
  | JArr "json list"
  | JObj "(string \<times> json) list"

text \<open>Python's truth value: \<^verbatim>\<open>not data\<close> holds of \<open>falsy\<close> values.\<close>

fun falsy :: "json \<Rightarrow> bool" where
  "falsy JNull = True"
| "falsy (JBool b) = (\<not> b)"
| "falsy (JNum n) = (n = 0)"
| "falsy (JFloat q) = (q = 0)"
| "falsy (JStr s) = (s = [])"
| "falsy (JArr xs) = (xs = [])"
| "falsy (JObj kvs) = (kvs = [])"

fun py_type :: "json \<Rightarrow> string" where
  "py_type JNull = ''NoneType''"
| "py_type (JBool b) = ''bool''"
| "py_type (JNum n) = ''int''"
| "py_type (JFloat q) = ''float''"
| "py_type (JStr s) = ''str''"
| "py_type (JArr xs) = ''list''"
| "py_type (JObj kvs) = ''dict''"

definition quoted :: "string \<Rightarrow> string" where
  "quoted s = [CHR 0x27] @ s @ [CHR 0x27]"

subsection \<open>Exceptions\<close>

text \<open>A computation that may raise: \<open>Inl\<close> carries the text of the exception.
  \<open>and_then\<close> runs the next statement unless the first raised; \<open>catch\<close> is the
  \<^verbatim>\<open>except Exception as e\<close> of the handlers, answering 500 with the store as it is.\<close>

definition and_then :: "string + 'a \<Rightarrow> ('a \<Rightarrow> string + 'b) \<Rightarrow> string + 'b" where
  "and_then m f = (case m of Inl e \<Rightarrow> Inl e | Inr x \<Rightarrow> f x)"

definition KeyError :: "string \<Rightarrow> string" where
  "KeyError k = quoted k"

definition NoneType_not_subscriptable :: string where
  "NoneType_not_subscriptable = quoted ''NoneType'' @ '' object is not subscriptable''"

definition no_attribute :: "json \<Rightarrow> string \<Rightarrow> string" where
  "no_attribute v a = quoted (py_type v) @ '' object has no attribute '' @ quoted a"

subsection \<open>The body: \<^verbatim>\<open>field in data\<close> and \<^verbatim>\<open>data[field]\<close>\<close>

fun starts_with :: "string \<Rightarrow> string \<Rightarrow> bool" where
  "starts_with [] ys = True"
| "starts_with (x # xs) [] = False"
| "starts_with (x # xs) (y # ys) = (x = y \<and> starts_with xs ys)"

fun substring :: "string \<Rightarrow> string \<Rightarrow> bool" where
  "substring xs [] = (xs = [])"
| "substring xs (y # ys) = (starts_with xs (y # ys) \<or> substring xs ys)"

text \<open>\<^verbatim>\<open>field in data\<close>: a key of a dict, an element of a list, a substring of a string;
  the other values are not iterable.\<close>

fun contains :: "json \<Rightarrow> string \<Rightarrow> string + bool" where
  "contains (JObj kvs) field = Inr (map_of kvs field \<noteq> None)"
| "contains (JArr xs) field = Inr (JStr field \<in> set xs)"
| "contains (JStr s) field = Inr (substring field s)"
| "contains v field = Inl (''argument of type '' @ quoted (py_type v) @ '' is not iterable'')"

text \<open>\<^verbatim>\<open>all(field in data for field in required_fields)\<close> stops at the first field that is
  missing.\<close>

fun required :: "json \<Rightarrow> string list \<Rightarrow> string + bool" where
  "required data [] = Inr True"
| "required data (field # fields) =
     and_then (contains data field) (\<lambda>present. if present then required data fields else Inr False)"

fun getitem :: "json \<Rightarrow> string \<Rightarrow> string + json" where
  "getitem (JObj kvs) k = (case map_of kvs k of None \<Rightarrow> Inl (KeyError k) | Some v \<Rightarrow> Inr v)"
| "getitem (JArr xs) k = Inl ''list indices must be integers or slices, not str''"
| "getitem (JStr s) k = Inl (''string indices must be integers, not '' @ quoted ''str'')"
| "getitem v k = Inl (quoted (py_type v) @ '' object is not subscriptable'')"

text \<open>The member \<open>k\<close> of a body that is an object.\<close>

definition member :: "json \<Rightarrow> string \<Rightarrow> json option" where
  "member data k = (case data of JObj kvs \<Rightarrow> map_of kvs k | _ \<Rightarrow> None)"

subsection \<open>Documents, the store, the environment\<close>

record ('i, 't) document =
  doc_id :: 'i
  created_at :: 't
  updated_at :: "'t option"
  members :: "string \<rightharpoonup> json"

type_synonym 'oid stored = "('oid, nat) document"

record 'oid db =
  users :: "'oid stored list"
  templates :: "'oid stored list"
  tasks :: "'oid stored list"

text \<open>
  \<^item> \<open>from_str\<close>: the \<^verbatim>\<open>ObjectId\<close> constructor on a string (it raises InvalidId unless the
    string is 24 hexadecimal digits); \<open>none_id\<close>: the identifier \<^verbatim>\<open>ObjectId(None)\<close>
    generates; \<open>str\<close>: \<^verbatim>\<open>str\<close> on an identifier.
  \<^item> \<open>str_json\<close>: \<^verbatim>\<open>str\<close> on a value that is not a string; \<open>isoformat\<close> on a datetime.
  \<^item> \<open>generate_password_hash\<close> on a string, with the salt of this call (it raises
    UnicodeEncodeError on a string that has no UTF-8 encoding);
    \<open>check_password_hash\<close> on what is stored and what the body carried; it may raise.
  \<^item> \<open>utcnow\<close>: \<^verbatim>\<open>datetime.utcnow()\<close> as the store keeps it (milliseconds);
    \<open>generated_id\<close>: the identifier the driver generates for the insert of this request.
  \<^item> \<open>refused\<close>: what the driver or the server refuses to store besides what BSON cannot
    encode; \<open>operator_error\<close> and \<open>operator_holds\<close>: how the server takes a query document
    whose first member name starts with a dollar sign, other than \<^verbatim>\<open>$ne\<close> and \<^verbatim>\<open>$eq\<close>.
\<close>

record 'oid env =
  from_str :: "string \<Rightarrow> string + 'oid"
  none_id :: 'oid
  str :: "'oid \<Rightarrow> string"
  str_json :: "json \<Rightarrow> string"
  isoformat :: "nat \<Rightarrow> string"
  generate_password_hash :: "string \<Rightarrow> string + string"
  check_password_hash :: "json \<Rightarrow> json \<Rightarrow> string + bool"
  utcnow :: nat
  generated_id :: 'oid
  refused :: "json \<Rightarrow> string option"
  operator_error :: "json \<Rightarrow> string option"
  operator_holds :: "json \<Rightarrow> json option \<Rightarrow> bool"

text \<open>The constructor of bson: \<^verbatim>\<open>ObjectId(None)\<close> generates an identifier, a string is
  parsed, any other JSON value is a TypeError.\<close>

definition id_type_error :: "json \<Rightarrow> string" where
  "id_type_error v =
     ''id must be an instance of (bytes, str, ObjectId), not <class '' @ quoted (py_type v) @ ''>''"

fun ObjectId :: "'oid env \<Rightarrow> json \<Rightarrow> string + 'oid" where
  "ObjectId env JNull = Inr (none_id env)"
| "ObjectId env (JStr s) = from_str env s"
| "ObjectId env v = Inl (id_type_error v)"

text \<open>werkzeug's \<^verbatim>\<open>generate_password_hash\<close> starts with \<^verbatim>\<open>password.encode()\<close>, which
  a value that is not a string does not have.\<close>

fun hash_password :: "'oid env \<Rightarrow> json \<Rightarrow> string + string" where
  "hash_password env (JStr p) = generate_password_hash env p"
| "hash_password env v = Inl (no_attribute v ''encode'')"

text \<open>The claims \<^verbatim>\<open>create_access_token\<close> puts into a token: the identity as subject, and
  the validity window of \<^verbatim>\<open>JWT_ACCESS_TOKEN_EXPIRES = timedelta(days=1)\<close> (milliseconds).\<close>

record jwt =
  sub :: string
  iat :: nat
  expires :: nat



text \<open>The payloads given to \<^verbatim>\<open>jsonify\<close>: \<open>Message m\<close> is \<^verbatim>\<open>{'message': m}\<close>, \<open>Token\<close>
  adds \<^verbatim>\<open>access_token\<close>, \<open>Created\<close> adds \<^verbatim>\<open>id\<close>, \<open>Notification\<close> adds
  \<^verbatim>\<open>notification\<close>. \<open>Document\<close> is a document as the handler hands it over: its
  identifier turned into text by \<^verbatim>\<open>str\<close>, each timestamp either still the datetime
  object or the text \<^verbatim>\<open>isoformat\<close> gave.\<close>

datatype stamp = Datetime nat | Text string

datatype body =
    Message string
  | Token string jwt
  | Created string string
  | Notification string string
  | Document "(string, stamp) document"
  | Documents "(string, stamp) document list"

type_synonym response = "body \<times> nat"

datatype http_method = GET | PUT | DELETE

definition catch :: "'oid db \<Rightarrow> string + (response \<times> 'oid db) \<Rightarrow> response \<times> 'oid db" where
  "catch db r = (case r of Inl e \<Rightarrow> ((Message e, 500), db) | Inr x \<Rightarrow> x)"

subsection \<open>What BSON cannot encode\<close>

text \<open>The driver encodes every value it sends, in a query as in a write, and raises before
  anything is sent: OverflowError for an \<^verbatim>\<open>int\<close> outside 64 bits, InvalidDocument for a
  member name with a NUL character.\<close>

fun bson_error :: "json \<Rightarrow> string option"
  and bson_error_list :: "json list \<Rightarrow> string option"
  and bson_error_fields :: "(string \<times> json) list \<Rightarrow> string option" where
  "bson_error JNull = None"
| "bson_error (JBool b) = None"
| "bson_error (JNum n) =
     (if - (2 ^ 63) \<le> n \<and> n < 2 ^ 63 then None
      else Some ''MongoDB can only handle up to 8-byte ints'')"
| "bson_error (JFloat q) = None"
| "bson_error (JStr s) = None"
| "bson_error (JArr xs) = bson_error_list xs"
| "bson_error (JObj kvs) = bson_error_fields kvs"
| "bson_error_list [] = None"
| "bson_error_list (x # xs) =
     (case bson_error x of Some e \<Rightarrow> Some e | None \<Rightarrow> bson_error_list xs)"
| "bson_error_fields [] = None"
| "bson_error_fields (kv # kvs) =
     (if CHR 0x00 \<in> set (fst kv)
      then Some ''BSON keys / regex patterns must not contain a NUL character''
      else case bson_error (snd kv) of Some e \<Rightarrow> Some e | None \<Rightarrow> bson_error_fields kvs)"

definition write_error :: "'oid env \<Rightarrow> json \<Rightarrow> string option" where
  "write_error env v = (case bson_error v of Some e \<Rightarrow> Some e | None \<Rightarrow> refused env v)"

fun values_error :: "'oid env \<Rightarrow> (string \<times> json) list \<Rightarrow> string option" where
  "values_error env [] = None"
| "values_error env (kv # kvs) =
     (case write_error env (snd kv) of Some e \<Rightarrow> Some e | None \<Rightarrow> values_error env kvs)"

subsection \<open>How the store compares and selects\<close>

text \<open>Equality of values in a query: numbers are compared as numbers, whichever their type;
  everything else member by member.\<close>

fun bson_eq :: "json \<Rightarrow> json \<Rightarrow> bool"
  and bson_eq_list :: "json list \<Rightarrow> json list \<Rightarrow> bool"
  and bson_eq_fields :: "(string \<times> json) list \<Rightarrow> (string \<times> json) list \<Rightarrow> bool" where
  "bson_eq (JNum a) (JNum b) = (a = b)"
| "bson_eq (JNum a) (JFloat b) = (of_int a = b)"
| "bson_eq (JFloat a) (JNum b) = (a = of_int b)"
| "bson_eq (JFloat a) (JFloat b) = (a = b)"
| "bson_eq (JArr xs) (JArr ys) = bson_eq_list xs ys"
| "bson_eq (JObj xs) (JObj ys) = bson_eq_fields xs ys"
| "bson_eq x y = (x = y)"
| "bson_eq_list [] [] = True"
| "bson_eq_list (x # xs) (y # ys) = (bson_eq x y \<and> bson_eq_list xs ys)"
| "bson_eq_list xs ys = False"
| "bson_eq_fields [] [] = True"
| "bson_eq_fields (x # xs) (y # ys) =
     (fst x = fst y \<and> bson_eq (snd x) (snd y) \<and> bson_eq_fields xs ys)"
| "bson_eq_fields xs ys = False"

text \<open>The query \<^verbatim>\<open>{field: q}\<close> for a value \<open>q\<close> that is not an operator document: the
  member equals \<open>q\<close>, or is an array with an element equal to \<open>q\<close>; a missing member
  is selected by null only.\<close>

definition equality_match :: "json \<Rightarrow> json option \<Rightarrow> bool" where
  "equality_match q v =
     (case v of
        None \<Rightarrow> q = JNull
      | Some x \<Rightarrow> bson_eq x q \<or> (case x of JArr xs \<Rightarrow> list_ex (\<lambda>e. bson_eq e q) xs | _ \<Rightarrow> False))"

text \<open>An object whose first member name starts with a dollar sign is not compared: the
  server runs it as operators. \<^verbatim>\<open>{'$ne': x}\<close> and \<^verbatim>\<open>{'$eq': x}\<close> are written out, the
  others are left to the environment.\<close>

fun is_operator_doc :: "json \<Rightarrow> bool" where
  "is_operator_doc (JObj ((k, v) # kvs)) = (case k of [] \<Rightarrow> False | c # cs \<Rightarrow> c = CHR ''$'')"
| "is_operator_doc v = False"

fun ne_or_eq :: "json \<Rightarrow> (bool \<times> json) option" where
  "ne_or_eq (JObj [(k, x)]) =
     (if k = ''$ne'' then Some (True, x) else if k = ''$eq'' then Some (False, x) else None)"
| "ne_or_eq v = None"

definition field_error :: "'oid env \<Rightarrow> json \<Rightarrow> string option" where
  "field_error env q =
     (case bson_error q of
        Some e \<Rightarrow> Some e
      | None \<Rightarrow> if is_operator_doc q \<and> ne_or_eq q = None then operator_error env q else None)"

definition field_holds :: "'oid env \<Rightarrow> json \<Rightarrow> json option \<Rightarrow> bool" where
  "field_holds env q v =
     (case ne_or_eq q of
        Some (negated, x) \<Rightarrow> (if negated then \<not> equality_match x v else equality_match x v)
      | None \<Rightarrow> if is_operator_doc q then operator_holds env q v else equality_match q v)"

subsection \<open>The store operations of pymongo\<close>

datatype 'oid cond = Id_eq 'oid | Id_ne 'oid | Field_is string json

type_synonym 'oid query = "'oid cond list"

fun holds :: "'oid env \<Rightarrow> 'oid stored \<Rightarrow> 'oid cond \<Rightarrow> bool" where
  "holds env d (Id_eq i) = (doc_id d = i)"
| "holds env d (Id_ne i) = (doc_id d \<noteq> i)"
| "holds env d (Field_is k q) = field_holds env q (members d k)"

definition matches :: "'oid env \<Rightarrow> 'oid stored \<Rightarrow> 'oid query \<Rightarrow> bool" where
  "matches env d q = list_all (holds env d) q"

fun query_error :: "'oid env \<Rightarrow> 'oid query \<Rightarrow> string option" where
  "query_error env [] = None"
| "query_error env (Field_is k q # cs) =
     (case field_error env q of Some e \<Rightarrow> Some e | None \<Rightarrow> query_error env cs)"
| "query_error env (c # cs) = query_error env cs"

definition find_one :: "'oid env \<Rightarrow> 'oid stored list \<Rightarrow> 'oid query \<Rightarrow> string + 'oid stored option" where
  "find_one env coll q =
     (case query_error env q of
        Some e \<Rightarrow> Inl e
      | None \<Rightarrow> Inr (List.find (\<lambda>d. matches env d q) coll))"

definition find_many :: "'oid env \<Rightarrow> 'oid stored list \<Rightarrow> 'oid query \<Rightarrow> string + 'oid stored list" where
  "find_many env coll q =
     (case query_error env q of
        Some e \<Rightarrow> Inl e
      | None \<Rightarrow> Inr (filter (\<lambda>d. matches env d q) coll))"

text \<open>\<^verbatim>\<open>insert_one\<close>: the driver encodes the members, adds the identifier it generated, and
  the unique index on \<^verbatim>\<open>_id\<close> refuses an identifier already in the collection
  (DuplicateKeyError).\<close>

definition insert_one ::
  "'oid env \<Rightarrow> 'oid stored list \<Rightarrow> nat \<Rightarrow> (string \<times> json) list
     \<Rightarrow> string + ('oid stored list \<times> 'oid)" where
  "insert_one env coll t kvs =
     (case values_error env kvs of
        Some e \<Rightarrow> Inl e
      | None \<Rightarrow>
         if generated_id env \<in> set (map doc_id coll)
         then Inl ''E11000 duplicate key error''
         else Inr (coll @ [\<lparr>doc_id = generated_id env, created_at = t, updated_at = None,
                             members = map_of kvs\<rparr>],
                   generated_id env))"

text \<open>\<^verbatim>\<open>update_one(q, {'$set': {..., 'updated_at': t}})\<close>: the first matching document gets
  the members of \<open>s\<close> and the timestamp; \<^verbatim>\<open>modified_count\<close> is 1 when that changed it,
  0 when it already held these values or nothing matched. Nothing is written when the driver
  cannot encode a value.\<close>

definition apply_set :: "'oid stored \<Rightarrow> (string \<times> json) list \<Rightarrow> nat \<Rightarrow> 'oid stored" where
  "apply_set d s t = d\<lparr>updated_at := Some t, members := members d ++ map_of s\<rparr>"

definition modifies :: "'oid stored \<Rightarrow> (string \<times> json) list \<Rightarrow> nat \<Rightarrow> bool" where
  "modifies d s t = (list_ex (\<lambda>(k, v). members d k \<noteq> Some v) s \<or> updated_at d \<noteq> Some t)"

fun update_first ::
  "'oid env \<Rightarrow> 'oid stored list \<Rightarrow> 'oid query \<Rightarrow> (string \<times> json) list \<Rightarrow> nat
     \<Rightarrow> 'oid stored list \<times> nat" where
  "update_first env [] q s t = ([], 0)"
| "update_first env (d # ds) q s t =
     (if matches env d q then (apply_set d s t # ds, if modifies d s t then 1 else 0)
      else (d # fst (update_first env ds q s t), snd (update_first env ds q s t)))"

definition update_one ::
  "'oid env \<Rightarrow> 'oid stored list \<Rightarrow> 'oid query \<Rightarrow> (string \<times> json) list \<Rightarrow> nat
     \<Rightarrow> string + ('oid stored list \<times> nat)" where
  "update_one env coll q s t =
     (case query_error env q of
        Some e \<Rightarrow> Inl e
      | None \<Rightarrow>
         (case values_error env s of
            Some e \<Rightarrow> Inl e
          | None \<Rightarrow> Inr (update_first env coll q s t)))"

text \<open>\<^verbatim>\<open>delete_one\<close> removes the first matching document; \<^verbatim>\<open>deleted_count\<close> is 1 or 0.\<close>

fun delete_first :: "'oid env \<Rightarrow> 'oid stored list \<Rightarrow> 'oid query \<Rightarrow> 'oid stored list \<times> nat" where
  "delete_first env [] q = ([], 0)"
| "delete_first env (d # ds) q =
     (if matches env d q then (ds, 1)
      else (d # fst (delete_first env ds q), snd (delete_first env ds q)))"

definition delete_one ::
  "'oid env \<Rightarrow> 'oid stored list \<Rightarrow> 'oid query \<Rightarrow> string + ('oid stored list \<times> nat)" where
  "delete_one env coll q =
     (case query_error env q of
        Some e \<Rightarrow> Inl e
      | None \<Rightarrow> Inr (delete_first env coll q))"

subsection \<open>Registration and login\<close>

definition register :: "'oid env \<Rightarrow> 'oid db \<Rightarrow> json \<Rightarrow> response \<times> 'oid db" where
  "register env db data = catch db
     (if falsy data then Inr ((Message ''No input data provided'', 400), db)
      else
      and_then (required data [''first_name'', ''last_name'', ''email'', ''password''])
        (\<lambda>all_present.
      if \<not> all_present then Inr ((Message ''Missing required fields'', 400), db)
      else
      and_then (getitem data ''email'') (\<lambda>email.
      and_then (find_one env (users db) [Field_is ''email'' email]) (\<lambda>existing.
      case existing of
        Some found \<Rightarrow> Inr ((Message ''Email already registered'', 400), db)
      | None \<Rightarrow>
      and_then (getitem data ''first_name'') (\<lambda>first_name.
      and_then (getitem data ''last_name'') (\<lambda>last_name.
      and_then (getitem data ''email'') (\<lambda>email.
      and_then (getitem data ''password'') (\<lambda>password.
      and_then (hash_password env password) (\<lambda>pwhash.
      and_then (insert_one env (users db) (utcnow env)
                  [(''first_name'', first_name), (''last_name'', last_name),
                   (''email'', email), (''password'', JStr pwhash)]) (\<lambda>inserted.
      Inr ((Message ''User registered successfully'', 201),
           db\<lparr>users := fst inserted\<rparr>)))))))))))"


subsection \<open>Templates\<close>

definition create_template ::
  "'oid env \<Rightarrow> 'oid db \<Rightarrow> string \<Rightarrow> json \<Rightarrow> response \<times> 'oid db" where
  "create_template env db current_user data = catch db
     (if falsy data then Inr ((Message ''No input data provided'', 400), db)
      else
      and_then (required data [''template_name'', ''subject'', ''body'']) (\<lambda>all_present.
      if \<not> all_present then Inr ((Message ''Missing required fields'', 400), db)
      else
      and_then (getitem data ''template_name'') (\<lambda>template_name.
      and_then (getitem data ''subject'') (\<lambda>subject.
      and_then (getitem data ''body'') (\<lambda>body.
      and_then (insert_one env (templates db) (utcnow env)
                  [(''user_id'', JStr current_user), (''template_name'', template_name),
                   (''subject'', subject), (''body'', body)]) (\<lambda>inserted.
      Inr ((Created ''Template created'' (str env (snd inserted)), 201),
           db\<lparr>templates := fst inserted\<rparr>)))))))"

text \<open>What the template handlers do to a document before \<^verbatim>\<open>jsonify\<close>: the identifier
  and both timestamps become text.\<close>

definition template_json :: "'oid env \<Rightarrow> 'oid stored \<Rightarrow> (string, stamp) document" where
  "template_json env template =
     \<lparr>doc_id = str env (doc_id template),
      created_at = Text (isoformat env (created_at template)),
      updated_at = map_option (\<lambda>t. Text (isoformat env t)) (updated_at template),
      members = members template\<rparr>"

definition get_all_templates :: "'oid env \<Rightarrow> 'oid db \<Rightarrow> string \<Rightarrow> response \<times> 'oid db" where
  "get_all_templates env db current_user = catch db
     (and_then (find_many env (templates db) [Field_is ''user_id'' (JStr current_user)])
        (\<lambda>found. Inr ((Documents (map (template_json env) found), 200), db)))"

definition template_operations ::
  "'oid env \<Rightarrow> 'oid db \<Rightarrow> string \<Rightarrow> http_method \<Rightarrow> string \<Rightarrow> json
     \<Rightarrow> response \<times> 'oid db" where
  "template_operations env db current_user method template_id data = catch db
     (case ObjectId env (JStr template_id) of
        Inl e \<Rightarrow> Inr ((Message ''Invalid template ID format'', 400), db)
      | Inr template_obj_id \<Rightarrow>
         (case method of
            GET \<Rightarrow>
              and_then (find_one env (templates db)
                          [Id_eq template_obj_id, Field_is ''user_id'' (JStr current_user)])
                (\<lambda>found.
              case found of
                None \<Rightarrow> Inr ((Message ''Template not found'', 404), db)
              | Some template \<Rightarrow> Inr ((Document (template_json env template), 200), db))
          | PUT \<Rightarrow>
              if falsy data then Inr ((Message ''No input data provided'', 400), db)
              else
              and_then (required data [''template_name'', ''subject'', ''body''])
                (\<lambda>all_present.
              if \<not> all_present then Inr ((Message ''Missing required fields'', 400), db)
              else
              and_then (getitem data ''template_name'') (\<lambda>template_name.
              and_then (getitem data ''subject'') (\<lambda>subject.
              and_then (getitem data ''body'') (\<lambda>body.
              and_then (update_one env (templates db)
                          [Id_eq template_obj_id, Field_is ''user_id'' (JStr current_user)]
                          [(''template_name'', template_name), (''subject'', subject),
                           (''body'', body)]
                          (utcnow env)) (\<lambda>result.
              if snd result = 0
              then Inr ((Message ''Template not found'', 404), db\<lparr>templates := fst result\<rparr>)
              else Inr ((Message ''Template updated successfully'', 200),
                        db\<lparr>templates := fst result\<rparr>))))))
          | DELETE \<Rightarrow>
              and_then (delete_one env (templates db)
                          [Id_eq template_obj_id, Field_is ''user_id'' (JStr current_user)])
                (\<lambda>result.
              if snd result = 0
              then Inr ((Message ''Template not found'', 404), db\<lparr>templates := fst result\<rparr>)
              else Inr ((Message ''Template deleted successfully'', 200),
                        db\<lparr>templates := fst result\<rparr>))))"

subsection \<open>Tasks\<close>

definition create_task ::
  "'oid env \<Rightarrow> 'oid db \<Rightarrow> string \<Rightarrow> json \<Rightarrow> response \<times> 'oid db" where
  "create_task env db current_user data = catch db
     (if falsy data then Inr ((Message ''No input data provided'', 400), db)
      else
      and_then (required data [''assigned_user'', ''task_date'', ''task_time'', ''task_msg''])
        (\<lambda>all_present.
      if \<not> all_present then Inr ((Message ''Missing required fields'', 400), db)
      else
      and_then (getitem data ''assigned_user'') (\<lambda>assigned_user.
      and_then (ObjectId env assigned_user) (\<lambda>assigned_id.
      and_then (find_one env (users db) [Id_eq assigned_id]) (\<lambda>found.
      case found of
        None \<Rightarrow> Inr ((Message ''Assigned user not found'', 404), db)
      | Some user \<Rightarrow>
      and_then (getitem data ''assigned_user'') (\<lambda>assigned_user.
      and_then (getitem data ''task_date'') (\<lambda>task_date.
      and_then (getitem data ''task_time'') (\<lambda>task_time.
      and_then (getitem data ''task_msg'') (\<lambda>task_msg.
      and_then (insert_one env (tasks db) (utcnow env)
                  [(''assigned_by'', JStr current_user), (''assigned_user'', assigned_user),
                   (''task_date'', task_date), (''task_time'', task_time),
                   (''task_msg'', task_msg), (''is_completed'', JNum 0)]) (\<lambda>inserted.
      Inr ((Created ''Task created'' (str env (snd inserted)), 201),
           db\<lparr>tasks := fst inserted\<rparr>)))))))))))"

text \<open>\<^verbatim>\<open>str\<close> and f-string interpolation of a member.\<close>

definition str_val :: "'oid env \<Rightarrow> json \<Rightarrow> string" where
  "str_val env v = (case v of JStr s \<Rightarrow> s | _ \<Rightarrow> str_json env v)"

text \<open>\<^verbatim>\<open>db.users.find_one({'_id': ObjectId(v)})\<close>, and the display name
  \<^verbatim>\<open>f"{user['first_name']} {user['last_name']}"\<close> of what it returned.\<close>

definition find_user :: "'oid env \<Rightarrow> 'oid db \<Rightarrow> json \<Rightarrow> string + 'oid stored option" where
  "find_user env db v =
     and_then (ObjectId env v) (\<lambda>i. find_one env (users db) [Id_eq i])"

definition display_name :: "'oid env \<Rightarrow> 'oid stored option \<Rightarrow> string + string" where
  "display_name env user =
     (case user of
        None \<Rightarrow> Inl NoneType_not_subscriptable
      | Some u \<Rightarrow>
         (case members u ''first_name'' of
            None \<Rightarrow> Inl (KeyError ''first_name'')
          | Some first_name \<Rightarrow>
             (case members u ''last_name'' of
                None \<Rightarrow> Inl (KeyError ''last_name'')
              | Some last_name \<Rightarrow> Inr (str_val env first_name @ '' '' @ str_val env last_name))))"

text \<open>The enrichment of one task in \<^verbatim>\<open>get_tasks\<close> and in the GET branch of
  \<^verbatim>\<open>task_operations\<close> (lines 264 to 273 and 300 to 309).\<close>

definition task_json :: "'oid env \<Rightarrow> 'oid db \<Rightarrow> 'oid stored \<Rightarrow> string + (string, stamp) document" where
  "task_json env db task =
     (case members task ''assigned_by'' of
        None \<Rightarrow> Inl (KeyError ''assigned_by'')
      | Some assigned_by \<Rightarrow>
     (case members task ''assigned_user'' of
        None \<Rightarrow> Inl (KeyError ''assigned_user'')
      | Some assigned_user \<Rightarrow>
      and_then (find_user env db (JStr (str_val env assigned_by))) (\<lambda>assigned_by_user.
      and_then (find_user env db (JStr (str_val env assigned_user))) (\<lambda>assigned_to_user.
      and_then (display_name env assigned_by_user) (\<lambda>assigned_by_name.
      and_then (display_name env assigned_to_user) (\<lambda>assigned_to_name.
      Inr \<lparr>doc_id = str env (doc_id task),
           created_at = Text (isoformat env (created_at task)),
           updated_at = map_option Datetime (updated_at task),
           members = (members task)
             (''assigned_by'' \<mapsto> JStr (str_val env assigned_by),
              ''assigned_user'' \<mapsto> JStr (str_val env assigned_user),
              ''assigned_by_name'' \<mapsto> JStr assigned_by_name,
              ''assigned_to_name'' \<mapsto> JStr assigned_to_name)\<rparr>))))))"

fun task_json_all ::
  "'oid env \<Rightarrow> 'oid db \<Rightarrow> 'oid stored list \<Rightarrow> string + (string, stamp) document list" where
  "task_json_all env db [] = Inr []"
| "task_json_all env db (task # rest) =
     and_then (task_json env db task) (\<lambda>j.
     and_then (task_json_all env db rest) (\<lambda>js. Inr (j # js)))"

definition get_tasks :: "'oid env \<Rightarrow> 'oid db \<Rightarrow> string \<Rightarrow> response \<times> 'oid db" where
  "get_tasks env db current_user = catch db
     (and_then (find_many env (tasks db) [Field_is ''assigned_user'' (JStr current_user)])
        (\<lambda>found.
      and_then (task_json_all env db found) (\<lambda>js. Inr ((Documents js, 200), db))))"

text \<open>The notification of the PUT branch (lines 338 to 340): both users are looked up from
  the task read before the write, only the assignee's name is used.\<close>

definition notification :: "'oid env \<Rightarrow> 'oid db \<Rightarrow> 'oid stored \<Rightarrow> string + string" where
  "notification env db task =
     (case members task ''assigned_by'' of
        None \<Rightarrow> Inl (KeyError ''assigned_by'')
      | Some assigned_by \<Rightarrow>
      and_then (find_user env db assigned_by) (\<lambda>assigned_by_user.
     (case members task ''assigned_user'' of
        None \<Rightarrow> Inl (KeyError ''assigned_user'')
      | Some assigned_user \<Rightarrow>
      and_then (find_user env db assigned_user) (\<lambda>assigned_to_user.
      and_then (display_name env assigned_to_user) (\<lambda>name.
      Inr (''Task completed by '' @ name))))))"

definition task_operations ::
  "'oid env \<Rightarrow> 'oid db \<Rightarrow> string \<Rightarrow> http_method \<Rightarrow> string \<Rightarrow> json
     \<Rightarrow> response \<times> 'oid db" where
  "task_operations env db current_user method task_id data = catch db
     (case ObjectId env (JStr task_id) of
        Inl e \<Rightarrow> Inr ((Message ''Invalid task ID format'', 400), db)
      | Inr task_obj_id \<Rightarrow>
         (case method of
            GET \<Rightarrow>
              and_then (find_one env (tasks db)
                          [Id_eq task_obj_id, Field_is ''assigned_user'' (JStr current_user)])
                (\<lambda>found.
              case found of
                None \<Rightarrow> Inr ((Message ''Task not found'', 404), db)
              | Some task \<Rightarrow>
                  and_then (task_json env db task) (\<lambda>j. Inr ((Document j, 200), db)))
          | PUT \<Rightarrow>
              if falsy data then Inr ((Message ''No input data provided'', 400), db)
              else
              and_then (required data [''is_completed'']) (\<lambda>all_present.
              if \<not> all_present then Inr ((Message ''Missing required fields'', 400), db)
              else
              and_then (find_one env (tasks db)
                          [Id_eq task_obj_id, Field_is ''assigned_user'' (JStr current_user)])
                (\<lambda>found.
              case found of
                None \<Rightarrow> Inr ((Message ''Task not found'', 404), db)
              | Some task \<Rightarrow>
              and_then (getitem data ''is_completed'') (\<lambda>is_completed.
              and_then (update_one env (tasks db)
                          [Id_eq task_obj_id, Field_is ''assigned_user'' (JStr current_user)]
                          [(''is_completed'', is_completed)]
                          (utcnow env)) (\<lambda>result.
              if snd result = 0
              then Inr ((Message ''Task not found'', 404), db\<lparr>tasks := fst result\<rparr>)
              else Inr (catch (db\<lparr>tasks := fst result\<rparr>)
                     (and_then (notification env (db\<lparr>tasks := fst result\<rparr>) task)
                        (\<lambda>notification_message.
                      Inr ((Notification ''Task updated successfully'' notification_message,
                            200), db\<lparr>tasks := fst result\<rparr>))))))))
          | DELETE \<Rightarrow>
              and_then (find_one env (tasks db)
                          [Id_eq task_obj_id, Field_is ''assigned_user'' (JStr current_user)])
                (\<lambda>found.
              case found of
                None \<Rightarrow> Inr ((Message ''Task not found'', 404), db)
              | Some task \<Rightarrow>
              and_then (delete_one env (tasks db)
                          [Id_eq task_obj_id, Field_is ''assigned_user'' (JStr current_user)])
                (\<lambda>result.
              if snd result = 0
              then Inr ((Message ''Task not found'', 404), db\<lparr>tasks := fst result\<rparr>)
              else Inr ((Message ''Task deleted successfully'', 200),
                        db\<lparr>tasks := fst result\<rparr>)))))"

subsection \<open>The team\<close>

definition user_json :: "'oid env \<Rightarrow> 'oid stored \<Rightarrow> (string, stamp) document" where
  "user_json env user =
     \<lparr>doc_id = str env (doc_id user),
      created_at = Datetime (created_at user),
      updated_at = map_option Datetime (updated_at user),
      members = members user\<rparr>"

definition get_users :: "'oid env \<Rightarrow> 'oid db \<Rightarrow> string \<Rightarrow> response \<times> 'oid db" where
  "get_users env db current_user = catch db
     (and_then (ObjectId env (JStr current_user)) (\<lambda>caller.
      and_then (find_many env (users db) [Id_ne caller]) (\<lambda>found.
      Inr ((Documents (map (user_json env) found), 200), db))))"

subsection \<open>What a query for a string selects\<close>

text \<open>The documents the query \<^verbatim>\<open>{k: s}\<close> selects for a string \<open>s\<close>: those whose member
  \<open>k\<close> is \<open>s\<close>, or an array holding \<open>s\<close>.\<close>

definition member_is :: "('i, 't) document \<Rightarrow> string \<Rightarrow> string \<Rightarrow> bool" where
  "member_is d k s =
     (case members d k of
        Some (JStr x) \<Rightarrow> x = s
      | Some (JArr xs) \<Rightarrow> JStr s \<in> set xs
      | _ \<Rightarrow> False)"

text \<open>No two documents of a collection have the same identifier.\<close>

definition unique_ids :: "'oid db \<Rightarrow> bool" where
  "unique_ids db \<longleftrightarrow>
     distinct (map doc_id (users db)) \<and> distinct (map doc_id (templates db))
     \<and> distinct (map doc_id (tasks db))"

subsection \<open>An example store and an example environment\<close>

text \<open>A toy instance of the libraries, on identifiers written as their 24 hexadecimal
  digits, and a store with two users, one template of the first and one task for the second.
  They serve to run the handlers on concrete requests.\<close>

definition hexdigit :: "char \<Rightarrow> bool" where
  "hexdigit c = (c \<in> set ''0123456789abcdefABCDEF'')"

definition example_env :: "string env" where
  "example_env =
     \<lparr>from_str = (\<lambda>s. if length s = 24 \<and> list_all hexdigit s then Inr s
                      else Inl (quoted s @ '' is not a valid ObjectId'')),
      none_id = ''0000000000000000000000ee'',
      str = (\<lambda>i. i),
      str_json = py_type,
      isoformat = (\<lambda>t. ''1970-01-01T00:00:01''),
      generate_password_hash = (\<lambda>p. Inr (''scrypt:'' @ p)),
      check_password_hash = (\<lambda>h p. case h of
          JStr s \<Rightarrow> (case p of JStr w \<Rightarrow> Inr (s = ''scrypt:'' @ w)
                               | _ \<Rightarrow> Inl (no_attribute p ''encode''))
        | _ \<Rightarrow> Inl (no_attribute h ''split'')),
      utcnow = 1000,
      generated_id = ''00000000000000000000000f'',
      refused = (\<lambda>v. None),
      operator_error = (\<lambda>q. Some ''unknown operator''),
      operator_holds = (\<lambda>q v. False)\<rparr>"

definition alice_id :: string where "alice_id = ''0000000000000000000000a1''"
definition bob_id :: string where "bob_id = ''0000000000000000000000b2''"
definition welcome_id :: string where "welcome_id = ''0000000000000000000000c3''"
definition call_id :: string where "call_id = ''0000000000000000000000d4''"

definition alice :: "string stored" where
  "alice = \<lparr>doc_id = alice_id, created_at = 1, updated_at = None,
     members = [''first_name'' \<mapsto> JStr ''Alice'', ''last_name'' \<mapsto> JStr ''Ng'',
                ''email'' \<mapsto> JStr ''alice@example.com'',
                ''password'' \<mapsto> JStr ''scrypt:wonderland'']\<rparr>"

definition bob :: "string stored" where
  "bob = \<lparr>doc_id = bob_id, created_at = 2, updated_at = None,
     members = [''first_name'' \<mapsto> JStr ''Bob'', ''last_name'' \<mapsto> JStr ''Roy'',
                ''email'' \<mapsto> JStr ''bob@example.com'',
                ''password'' \<mapsto> JStr ''scrypt:builder'']\<rparr>"

definition welcome_template :: "string stored" where
  "welcome_template = \<lparr>doc_id = welcome_id, created_at = 10, updated_at = None,
     members = [''user_id'' \<mapsto> JStr alice_id, ''template_name'' \<mapsto> JStr ''Welcome'',
                ''subject'' \<mapsto> JStr ''Hello'', ''body'' \<mapsto> JStr ''Dear team'']\<rparr>"

definition call_task :: "string stored" where
  "call_task = \<lparr>doc_id = call_id, created_at = 20, updated_at = None,
     members = [''assigned_by'' \<mapsto> JStr alice_id, ''assigned_user'' \<mapsto> JStr bob_id,
                ''task_date'' \<mapsto> JStr ''2024-05-01'', ''task_time'' \<mapsto> JStr ''09:00'',
                ''task_msg'' \<mapsto> JStr ''Call the client'', ''is_completed'' \<mapsto> JNum 0]\<rparr>"

definition example_db :: "string db" where
  "example_db = \<lparr>users = [alice, bob], templates = [welcome_template], tasks = [call_task]\<rparr>"

text \<open>The example store after the template and the task were updated at time \<open>t\<close>, the task
  to \<^verbatim>\<open>is_completed = 1\<close>.\<close>

definition updated_db :: "nat \<Rightarrow> string db" where
  "updated_db t =
     \<lparr>users = [alice, bob],
      templates = [welcome_template\<lparr>updated_at := Some t\<rparr>],
      tasks = [call_task\<lparr>updated_at := Some t,
                 members := (members call_task)(''is_completed'' \<mapsto> JNum 1)\<rparr>]\<rparr>"

definition task_data :: "json \<Rightarrow> json" where
  "task_data assigned_user =
     JObj [(''assigned_user'', assigned_user), (''task_date'', JStr ''2024-06-01''),
           (''task_time'', JStr ''10:30''), (''task_msg'', JStr ''Send the report'')]"



definition completion_data :: "json \<Rightarrow> json" where
  "completion_data v = JObj [(''is_completed'', v)]"

definition welcome_data :: json where
  "welcome_data =
     JObj [(''template_name'', JStr ''Welcome''), (''subject'', JStr ''Hello''),
           (''body'', JStr ''Dear team'')]"

section \<open>Properties of the body and of the store operations\<close>

lemma member_present:
  assumes "member data k = Some v"
  shows "\<not> falsy data" and "contains data k = Inr True" and "getitem data k = Inr v"
  using assms by (cases data; auto simp: member_def)+

lemma member_missing:
  assumes "data = JObj kvs" and "member data k = None"
  shows "contains data k = Inr False"
  using assms by (simp add: member_def)

lemma and_then_Inr [simp]: "and_then (Inr x) f = f x"
  by (simp add: and_then_def)

lemma and_then_Inl [simp]: "and_then (Inl e) f = Inl e"
  by (simp add: and_then_def)

lemma catch_Inr [simp]: "catch db (Inr x) = x"
  by (simp add: catch_def)

lemma catch_Inl [simp]: "catch db (Inl e) = ((Message e, 500), db)"
  by (simp add: catch_def)

lemma bson_eq_str: "bson_eq x (JStr s) \<longleftrightarrow> x = JStr s"
  by (cases x) auto

lemma list_ex_bson_eq_str: "list_ex (\<lambda>e. bson_eq e (JStr s)) xs \<longleftrightarrow> JStr s \<in> set xs"
  by (auto simp: list_ex_iff bson_eq_str)

lemma field_holds_str: "field_holds env (JStr s) (members d k) \<longleftrightarrow> member_is d k s"
  by (auto simp: field_holds_def equality_match_def member_is_def bson_eq_str
        list_ex_iff split: option.splits json.splits)

lemma field_error_str [simp]: "field_error env (JStr s) = None"
  by (simp add: field_error_def)

lemma matches_id_str:
  "matches env d [Id_eq i, Field_is k (JStr s)] \<longleftrightarrow> doc_id d = i \<and> member_is d k s"
  by (simp add: matches_def field_holds_str)


lemma query_error_id_str [simp]:
  "query_error env [Id_eq i, Field_is k (JStr s)] = None"
  "query_error env [Field_is k (JStr s)] = None"
  "query_error env [Id_eq i] = None"
  "query_error env [Id_ne i] = None"
  by (simp_all add: field_error_str)

lemma member_is_str: "members d k = Some (JStr a) \<Longrightarrow> member_is d k s \<longleftrightarrow> s = a"
  by (auto simp: member_is_def)

lemma find_split:
  "List.find P coll = Some d \<Longrightarrow>
     \<exists>xs ys. coll = xs @ d # ys \<and> (\<forall>x\<in>set xs. \<not> P x) \<and> P d"
proof (induction coll)
  case Nil
  then show ?case by simp
next
  case (Cons a coll)
  show ?case
  proof (cases "P a")
    case True
    with Cons.prems have "a = d" by simp
    with True have "a # coll = [] @ d # coll \<and> (\<forall>x\<in>set []. \<not> P x) \<and> P d" by simp
    then show ?thesis by blast
  next
    case False
    with Cons.prems have "List.find P coll = Some d" by simp
    from Cons.IH[OF this] obtain xs ys where
      "coll = xs @ d # ys" "\<forall>x\<in>set xs. \<not> P x" "P d" by blast
    with False have "a # coll = (a # xs) @ d # ys \<and> (\<forall>x\<in>set (a # xs). \<not> P x) \<and> P d"
      by simp
    then show ?thesis by blast
  qed
qed

lemma find_first:
  "\<forall>x\<in>set xs. \<not> P x \<Longrightarrow> P d \<Longrightarrow> List.find P (xs @ d # ys) = Some d"
  by (induction xs) simp_all

lemma find_none: "\<forall>x\<in>set coll. \<not> P x \<Longrightarrow> List.find P coll = None"
  by (simp add: find_None_iff)


lemma update_first_found:
  "\<forall>x\<in>set xs. \<not> matches env x q \<Longrightarrow> matches env d q \<Longrightarrow>
     update_first env (xs @ d # ys) q s t
       = (xs @ apply_set d s t # ys, if modifies d s t then 1 else 0)"
  by (induction xs) simp_all

lemma update_first_no_match:
  "\<forall>x\<in>set coll. \<not> matches env x q \<Longrightarrow> update_first env coll q s t = (coll, 0)"
  by (induction coll) simp_all

lemma delete_first_found:
  "\<forall>x\<in>set xs. \<not> matches env x q \<Longrightarrow> matches env d q \<Longrightarrow>
     delete_first env (xs @ d # ys) q = (xs @ ys, 1)"
  by (induction xs) simp_all

lemma delete_first_no_match:
  "\<forall>x\<in>set coll. \<not> matches env x q \<Longrightarrow> delete_first env coll q = (coll, 0)"
  by (induction coll) simp_all

lemma apply_set_unmodified: "\<not> modifies d s t \<Longrightarrow> apply_set d s t = d"
proof -
  assume a: "\<not> modifies d s t"
  have "members d ++ map_of s = members d"
  proof
    fix k
    show "(members d ++ map_of s) k = members d k"
    proof (cases "map_of s k")
      case None
      then show ?thesis by (simp add: map_add_def)
    next
      case (Some v)
      then have "(k, v) \<in> set s" by (rule map_of_SomeD)
      with a have "members d k = Some v" by (auto simp: modifies_def list_ex_iff)
      with Some show ?thesis by (simp add: map_add_def)
    qed
  qed
  moreover from a have "updated_at d = Some t" by (simp add: modifies_def)
  ultimately show ?thesis by (simp add: apply_set_def)
qed

lemma apply_set_modified:
  assumes "modifies d s t" "distinct (map fst s)"
  shows "apply_set d s t \<noteq> d"
proof
  assume eq: "apply_set d s t = d"
  then have u: "updated_at d = Some t" and m: "members d ++ map_of s = members d"
    by (auto simp: apply_set_def dest: arg_cong[where f = updated_at] arg_cong[where f = members])
  from assms(1) u obtain k v where kv: "(k, v) \<in> set s" "members d k \<noteq> Some v"
    by (auto simp: modifies_def list_ex_iff)
  from kv(1) assms(2) have "map_of s k = Some v" by simp
  then have "(members d ++ map_of s) k = Some v" by (simp add: map_add_def)
  with m kv(2) show False by simp
qed

lemma apply_set_single:
  "apply_set d [(k, v)] t = d\<lparr>updated_at := Some t, members := (members d)(k \<mapsto> v)\<rparr>"
  by (simp add: apply_set_def)

lemma apply_set_template:
  "apply_set d [(''template_name'', a), (''subject'', b), (''body'', c)] t
     = d\<lparr>updated_at := Some t,
         members := (members d)(''template_name'' \<mapsto> a, ''subject'' \<mapsto> b, ''body'' \<mapsto> c)\<rparr>"
proof -
  have h: "members d ++ map_of [(''template_name'', a), (''subject'', b), (''body'', c)]
             = (members d)(''template_name'' \<mapsto> a, ''subject'' \<mapsto> b, ''body'' \<mapsto> c)"
    by (rule ext) (simp add: map_add_def)
  show ?thesis unfolding apply_set_def h by (rule refl)
qed

lemma modifies_template:
  "modifies d [(''template_name'', a), (''subject'', b), (''body'', c)] t \<longleftrightarrow>
     \<not> (members d ''template_name'' = Some a \<and> members d ''subject'' = Some b
        \<and> members d ''body'' = Some c \<and> updated_at d = Some t)"
  by (auto simp: modifies_def)

lemma modifies_task:
  "modifies d [(''is_completed'', v)] t \<longleftrightarrow>
     \<not> (members d ''is_completed'' = Some v \<and> updated_at d = Some t)"
  by (auto simp: modifies_def)

lemma values_error_single: "values_error env [(k, v)] = write_error env v"
  by (simp split: option.splits)

lemma values_error_template:
  "values_error env [(''template_name'', a), (''subject'', b), (''body'', c)] = None \<longleftrightarrow>
     write_error env a = None \<and> write_error env b = None \<and> write_error env c = None"
  by (auto split: option.splits)

lemma same_tasks: "tasks db = ts \<Longrightarrow> db\<lparr>tasks := ts\<rparr> = db"
  by auto

lemma same_templates: "templates db = ts \<Longrightarrow> db\<lparr>templates := ts\<rparr> = db"
  by auto

lemma find_one_id:
  "find_one env coll [Id_eq i] = Inr (List.find (\<lambda>d. doc_id d = i) coll)"
  by (simp add: find_one_def matches_def)

lemma find_one_id_str:
  "find_one env coll [Id_eq i, Field_is k (JStr s)]
     = Inr (List.find (\<lambda>d. doc_id d = i \<and> member_is d k s) coll)"
  by (simp add: find_one_def matches_id_str field_error_str)


lemma find_many_ne: "find_many env coll [Id_ne i] = Inr (filter (\<lambda>u. doc_id u \<noteq> i) coll)"
  by (simp add: find_many_def matches_def)

section \<open>The example store\<close>

lemma example_ids:
  "ObjectId example_env (JStr alice_id) = Inr alice_id"
  "ObjectId example_env (JStr bob_id) = Inr bob_id"
  "ObjectId example_env (JStr welcome_id) = Inr welcome_id"
  "ObjectId example_env (JStr call_id) = Inr call_id"
  "from_str example_env alice_id = Inr alice_id"
  "from_str example_env bob_id = Inr bob_id"
  "from_str example_env welcome_id = Inr welcome_id"
  "from_str example_env call_id = Inr call_id"
  by (simp_all add: example_env_def alice_id_def bob_id_def welcome_id_def call_id_def
        hexdigit_def)

lemma example_users:
  "users example_db = [alice, bob]" "doc_id alice = alice_id" "doc_id bob = bob_id"
  "alice_id \<noteq> bob_id" "bob_id \<noteq> alice_id"
  by (simp_all add: example_db_def alice_def bob_def alice_id_def bob_id_def)

lemma example_now: "utcnow example_env = 1000"
  by (simp add: example_env_def)

lemma example_write_error: "write_error example_env v = bson_error v"
  by (simp add: write_error_def example_env_def split: option.splits)

lemma example_stores:
  "templates example_db = [] @ welcome_template # []"
  "tasks example_db = [] @ call_task # []"
  "templates (updated_db n) = [] @ welcome_template\<lparr>updated_at := Some n\<rparr> # []"
  "tasks (updated_db n)
     = [] @ call_task\<lparr>updated_at := Some n,
                       members := (members call_task)(''is_completed'' \<mapsto> JNum 1)\<rparr> # []"
  "users (updated_db n) = [alice, bob]"
  by (simp_all add: example_db_def updated_db_def)

lemma example_template:
  "doc_id welcome_template = welcome_id"
  "members welcome_template ''user_id'' = Some (JStr alice_id)"
  "member_is welcome_template ''user_id'' alice_id"
  "doc_id (welcome_template\<lparr>updated_at := Some n\<rparr>) = welcome_id"
  "member_is (welcome_template\<lparr>updated_at := Some n\<rparr>) ''user_id'' alice_id"
  "members welcome_template ''template_name'' = Some (JStr ''Welcome'')"
  "members welcome_template ''subject'' = Some (JStr ''Hello'')"
  "members welcome_template ''body'' = Some (JStr ''Dear team'')"
  "updated_at welcome_template = None"
  by (simp_all add: welcome_template_def member_is_def)

lemma example_task:
  "doc_id call_task = call_id"
  "member_is call_task ''assigned_user'' bob_id"
  "members call_task ''assigned_by'' = Some (JStr alice_id)"
  "members call_task ''assigned_user'' = Some (JStr bob_id)"
  "members call_task ''is_completed'' = Some (JNum 0)"
  "updated_at call_task = None"
  by (simp_all add: call_task_def member_is_def)


lemma welcome_data_members:
  "member welcome_data ''template_name'' = Some (JStr ''Welcome'')"
  "member welcome_data ''subject'' = Some (JStr ''Hello'')"
  "member welcome_data ''body'' = Some (JStr ''Dear team'')"
  by (simp_all add: welcome_data_def member_def)

lemma completion_data_member: "member (completion_data v) ''is_completed'' = Some v"
  by (simp add: completion_data_def member_def)

lemma task_data_members:
  "member (task_data v) ''assigned_user'' = Some v"
  "member (task_data v) ''task_date'' = Some (JStr ''2024-06-01'')"
  "member (task_data v) ''task_time'' = Some (JStr ''10:30'')"
  "member (task_data v) ''task_msg'' = Some (JStr ''Send the report'')"
  by (simp_all add: task_data_def member_def)



section \<open>Properties of the handlers\<close>

subsection \<open>Creating a task\<close>

lemma create_task_present:
  assumes "member data ''assigned_user'' = Some assigned_user"
    and "member data ''task_date'' = Some task_date"
    and "member data ''task_time'' = Some task_time"
    and "member data ''task_msg'' = Some task_msg"
  shows "create_task env db current_user data =
     (case ObjectId env assigned_user of
        Inl e \<Rightarrow> ((Message e, 500), db)
      | Inr assigned_id \<Rightarrow>
         (case List.find (\<lambda>u. doc_id u = assigned_id) (users db) of
            None \<Rightarrow> ((Message ''Assigned user not found'', 404), db)
          | Some user \<Rightarrow>
             (case insert_one env (tasks db) (utcnow env)
                     [(''assigned_by'', JStr current_user), (''assigned_user'', assigned_user),
                      (''task_date'', task_date), (''task_time'', task_time),
                      (''task_msg'', task_msg), (''is_completed'', JNum 0)] of
                Inl e \<Rightarrow> ((Message e, 500), db)
              | Inr inserted \<Rightarrow>
                  ((Created ''Task created'' (str env (snd inserted)), 201),
                   db\<lparr>tasks := fst inserted\<rparr>))))"
  by (simp add: create_task_def member_present[OF assms(1)] member_present[OF assms(2)]
        member_present[OF assms(3)] member_present[OF assms(4)] find_one_id
        split: sum.splits option.splits)

text \<open>
  C4, as the code has it. An authenticated POST /task that carries the four required members,
  and whose \<^verbatim>\<open>assigned_user\<close> the \<^verbatim>\<open>ObjectId\<close> constructor reads as an identifier that no
  user document has, is answered 404 (\<^verbatim>\<open>Assigned user not found\<close>) and leaves the store as
  it was: no task is inserted. The constructor reads a string of 24 hexadecimal digits as that
  identifier, and JSON null as a fresh identifier; what it does not read is not answered 404.
\<close>

theorem create_task_unknown_assignee:
  assumes "member data ''assigned_user'' = Some assigned_user"
    and "member data ''task_date'' = Some task_date"
    and "member data ''task_time'' = Some task_time"
    and "member data ''task_msg'' = Some task_msg"
    and "ObjectId env assigned_user = Inr assigned_id"
    and "\<forall>u\<in>set (users db). doc_id u \<noteq> assigned_id"
  shows "create_task env db current_user data = ((Message ''Assigned user not found'', 404), db)"
proof -
  from assms(6) have "List.find (\<lambda>u. doc_id u = assigned_id) (users db) = None"
    by (simp add: find_None_iff)
  with assms(5) show ?thesis by (simp add: create_task_present[OF assms(1-4)])
qed

theorem create_task_unknown_assignee_witness:
  "create_task example_env example_db alice_id (task_data (JStr ''0000000000000000000000ff''))
     = ((Message ''Assigned user not found'', 404), example_db)"
proof -
  have e: "ObjectId example_env (JStr ''0000000000000000000000ff'')
             = Inr ''0000000000000000000000ff''"
    by (simp add: example_env_def hexdigit_def)
  have n: "\<forall>u\<in>set (users example_db). doc_id u \<noteq> ''0000000000000000000000ff''"
    by (simp add: example_users) (simp add: alice_id_def bob_id_def)
  show ?thesis
    by (rule create_task_unknown_assignee[OF task_data_members e n])
qed

text \<open>
  C4 as stated fails: the body carries the four members, its \<^verbatim>\<open>assigned_user\<close> is the string
  \<^verbatim>\<open>bob\<close>, which is the identifier of no user; the constructor raises InvalidId and the
  answer is 500 with that message, not 404. The store is unchanged.
\<close>

theorem create_task_not_an_id_counterexample:
  "member (task_data (JStr ''bob'')) ''assigned_user'' = Some (JStr ''bob'')
   \<and> member (task_data (JStr ''bob'')) ''task_date'' = Some (JStr ''2024-06-01'')
   \<and> member (task_data (JStr ''bob'')) ''task_time'' = Some (JStr ''10:30'')
   \<and> member (task_data (JStr ''bob'')) ''task_msg'' = Some (JStr ''Send the report'')
   \<and> users example_db = [alice, bob]
   \<and> str example_env (doc_id alice) \<noteq> ''bob''
   \<and> str example_env (doc_id bob) \<noteq> ''bob''
   \<and> create_task example_env example_db alice_id (task_data (JStr ''bob''))
       = ((Message (quoted ''bob'' @ '' is not a valid ObjectId''), 500), example_db)"
proof -
  have i: "str example_env (doc_id alice) \<noteq> ''bob''" "str example_env (doc_id bob) \<noteq> ''bob''"
    by (simp_all add: example_env_def example_users) (simp_all add: alice_id_def bob_id_def)
  have "ObjectId example_env (JStr ''bob'') = Inl (quoted ''bob'' @ '' is not a valid ObjectId'')"
    by (simp add: example_env_def)
  then have "create_task example_env example_db alice_id (task_data (JStr ''bob''))
       = ((Message (quoted ''bob'' @ '' is not a valid ObjectId''), 500), example_db)"
    by (simp add: create_task_present[OF task_data_members])
  with i show ?thesis by (simp add: task_data_members example_users)
qed

text \<open>
  C7. Whenever POST /task answers 201, the tasks collection has grown by exactly one document,
  whose \<^verbatim>\<open>is_completed\<close> is 0 and whose \<^verbatim>\<open>assigned_by\<close> is the identity of the
  caller, whatever the body carried under these two names; the other collections are unchanged.
\<close>

theorem create_task_initial_fields:
  assumes "create_task env db current_user data = ((b, 201), db')"
  shows "\<exists>task. tasks db' = tasks db @ [task]
           \<and> members task ''is_completed'' = Some (JNum 0)
           \<and> members task ''assigned_by'' = Some (JStr current_user)
           \<and> users db' = users db \<and> templates db' = templates db"
  using assms
  by (auto simp: create_task_def insert_one_def catch_def and_then_def
           split: if_splits option.splits sum.splits prod.splits)

theorem create_task_initial_fields_witness:
  "\<exists>task. tasks (snd (create_task example_env example_db alice_id
                 (JObj [(''assigned_user'', JStr bob_id), (''task_date'', JStr ''2024-06-01''),
                        (''task_time'', JStr ''10:30''), (''task_msg'', JStr ''Send the report''),
                        (''is_completed'', JNum 1), (''assigned_by'', JStr bob_id)])))
             = tasks example_db @ [task]
         \<and> members task ''is_completed'' = Some (JNum 0)
         \<and> members task ''assigned_by'' = Some (JStr alice_id)"
proof -
  let ?data = "JObj [(''assigned_user'', JStr bob_id), (''task_date'', JStr ''2024-06-01''),
                        (''task_time'', JStr ''10:30''), (''task_msg'', JStr ''Send the report''),
                        (''is_completed'', JNum 1), (''assigned_by'', JStr bob_id)]"
  have m: "member ?data ''assigned_user'' = Some (JStr bob_id)"
    "member ?data ''task_date'' = Some (JStr ''2024-06-01'')"
    "member ?data ''task_time'' = Some (JStr ''10:30'')"
    "member ?data ''task_msg'' = Some (JStr ''Send the report'')"
    by (simp_all add: member_def)
  have f: "List.find (\<lambda>u. doc_id u = bob_id) (users example_db) = Some bob"
    by (simp add: example_users)
  have g: "generated_id example_env \<notin> set (map doc_id (tasks example_db))"
    by (simp add: example_env_def example_db_def call_task_def call_id_def)
  have w: "values_error example_env
             [(''assigned_by'', JStr alice_id), (''assigned_user'', JStr bob_id),
              (''task_date'', JStr ''2024-06-01''), (''task_time'', JStr ''10:30''),
              (''task_msg'', JStr ''Send the report''), (''is_completed'', JNum 0)] = None"
    by (simp add: write_error_def example_env_def)
  have s: "str example_env (generated_id example_env) = ''00000000000000000000000f''"
    by (simp add: example_env_def)
  have "\<exists>inserted. insert_one example_env (tasks example_db) (utcnow example_env)
             [(''assigned_by'', JStr alice_id), (''assigned_user'', JStr bob_id),
              (''task_date'', JStr ''2024-06-01''), (''task_time'', JStr ''10:30''),
              (''task_msg'', JStr ''Send the report''), (''is_completed'', JNum 0)]
            = Inr (inserted, generated_id example_env)"
    unfolding insert_one_def w using g by simp
  then have "\<exists>db'. create_task example_env example_db alice_id ?data
           = ((Created ''Task created'' ''00000000000000000000000f'', 201), db')"
    by (auto simp add: create_task_present[OF m] example_ids f s)
  then obtain db' where e: "create_task example_env example_db alice_id ?data
           = ((Created ''Task created'' ''00000000000000000000000f'', 201), db')" by blast
  from create_task_initial_fields[OF e] show ?thesis by (auto simp: e)
qed

text \<open>
  C10, as the code has it. An authenticated POST /task that carries the four required members,
  and whose \<^verbatim>\<open>assigned_user\<close> the \<^verbatim>\<open>ObjectId\<close> constructor rejects, is answered by the
  \<^verbatim>\<open>except Exception\<close> branch: status 500 with the text of the constructor's exception as
  message (neither the 404 of an unknown assignee nor a 400), and the store is unchanged. The
  constructor rejects the strings it cannot parse (InvalidId) and every JSON value that is
  neither a string nor null (TypeError); it does not reject null.
\<close>

theorem create_task_rejected_assigned_user:
  assumes "member data ''assigned_user'' = Some assigned_user"
    and "member data ''task_date'' = Some task_date"
    and "member data ''task_time'' = Some task_time"
    and "member data ''task_msg'' = Some task_msg"
  shows "(\<forall>e. ObjectId env assigned_user = Inl e \<longrightarrow>
            create_task env db current_user data = ((Message e, 500), db))
       \<and> (\<forall>s e. assigned_user = JStr s \<and> from_str env s = Inl e \<longrightarrow>
            create_task env db current_user data = ((Message e, 500), db))
       \<and> (assigned_user \<noteq> JNull \<and> (\<forall>s. assigned_user \<noteq> JStr s) \<longrightarrow>
            create_task env db current_user data
              = ((Message (id_type_error assigned_user), 500), db))"
proof (intro conjI allI impI)
  fix e
  assume "ObjectId env assigned_user = Inl e"
  then show "create_task env db current_user data = ((Message e, 500), db)"
    by (simp add: create_task_present[OF assms])
next
  fix s e
  assume "assigned_user = JStr s \<and> from_str env s = Inl e"
  then show "create_task env db current_user data = ((Message e, 500), db)"
    by (simp add: create_task_present[OF assms])
next
  assume "assigned_user \<noteq> JNull \<and> (\<forall>s. assigned_user \<noteq> JStr s)"
  then have "ObjectId env assigned_user = Inl (id_type_error assigned_user)"
    by (cases assigned_user) simp_all
  then show "create_task env db current_user data
              = ((Message (id_type_error assigned_user), 500), db)"
    by (simp add: create_task_present[OF assms])
qed

theorem create_task_rejected_assigned_user_witness:
  "create_task example_env example_db alice_id (task_data (JStr ''bob''))
     = ((Message (quoted ''bob'' @ '' is not a valid ObjectId''), 500), example_db)
   \<and> create_task example_env example_db alice_id (task_data (JNum 7))
     = ((Message (id_type_error (JNum 7)), 500), example_db)"
proof -
  have e: "from_str example_env ''bob'' = Inl (quoted ''bob'' @ '' is not a valid ObjectId'')"
    by (simp add: example_env_def)
  from create_task_rejected_assigned_user[where data = "task_data (JStr ''bob'')"
      and env = example_env and db = example_db and current_user = alice_id,
      OF task_data_members] e
  have one: "create_task example_env example_db alice_id (task_data (JStr ''bob''))
     = ((Message (quoted ''bob'' @ '' is not a valid ObjectId''), 500), example_db)"
    by blast
  from create_task_rejected_assigned_user[where data = "task_data (JNum 7)"
      and env = example_env and db = example_db and current_user = alice_id,
      OF task_data_members]
  have two: "create_task example_env example_db alice_id (task_data (JNum 7))
     = ((Message (id_type_error (JNum 7)), 500), example_db)"
    by simp
  from one two show ?thesis by simp
qed

text \<open>
  C10 as stated fails: JSON null is not an ObjectId string, yet \<^verbatim>\<open>ObjectId(None)\<close> raises
  nothing: it generates an identifier, no user has it, and the answer is the 404 of an unknown
  assignee.
\<close>

theorem create_task_null_assigned_user_counterexample:
  "member (task_data JNull) ''assigned_user'' = Some JNull
   \<and> member (task_data JNull) ''task_date'' = Some (JStr ''2024-06-01'')
   \<and> member (task_data JNull) ''task_time'' = Some (JStr ''10:30'')
   \<and> member (task_data JNull) ''task_msg'' = Some (JStr ''Send the report'')
   \<and> create_task example_env example_db alice_id (task_data JNull)
       = ((Message ''Assigned user not found'', 404), example_db)"
proof -
  have e: "ObjectId example_env JNull = Inr ''0000000000000000000000ee''"
    by (simp add: example_env_def)
  have "List.find (\<lambda>u. doc_id u = ''0000000000000000000000ee'') (users example_db) = None"
    by (simp add: example_users) (simp add: alice_id_def bob_id_def)
  with e have "create_task example_env example_db alice_id (task_data JNull)
       = ((Message ''Assigned user not found'', 404), example_db)"
    by (simp add: create_task_present[OF task_data_members])
  then show ?thesis by (simp add: task_data_members)
qed

subsection \<open>Registration and login\<close>









subsection \<open>The team\<close>

text \<open>
  C8. For a caller whose identity the \<^verbatim>\<open>ObjectId\<close> constructor reads as the identifier
  \<open>caller\<close>, GET /team answers 200 with the stored users whose identifier differs from
  \<open>caller\<close>, in stored order, each handed over by \<open>user_json\<close>, and with no others. Where
  \<^verbatim>\<open>ObjectId(str(i))\<close> gives back \<open>i\<close> for the stored identifiers, no entry carries the
  caller's own identity as its \<^verbatim>\<open>_id\<close>.
\<close>

theorem get_users_excludes_caller:
  assumes "ObjectId env (JStr current_user) = Inr caller"
    and "\<forall>u\<in>set (users db). ObjectId env (JStr (str env (doc_id u))) = Inr (doc_id u)"
  shows "\<exists>entries.
           get_users env db current_user = ((Documents entries, 200), db)
           \<and> entries = map (user_json env) (filter (\<lambda>u. doc_id u \<noteq> caller) (users db))
           \<and> (\<forall>e\<in>set entries. doc_id e \<noteq> current_user)"
proof -
  let ?entries = "map (user_json env) (filter (\<lambda>u. doc_id u \<noteq> caller) (users db))"
  from assms(1) have r: "get_users env db current_user = ((Documents ?entries, 200), db)"
    by (simp add: get_users_def find_many_ne)
  have "doc_id e \<noteq> current_user" if "e \<in> set ?entries" for e
  proof
    assume eq: "doc_id e = current_user"
    from that obtain u where u: "u \<in> set (users db)" "doc_id u \<noteq> caller" "e = user_json env u"
      by auto
    from u(3) eq have "str env (doc_id u) = current_user" by (simp add: user_json_def)
    with assms(2) u(1) assms(1) have "doc_id u = caller" by auto
    with u(2) show False by simp
  qed
  with r show ?thesis by blast
qed

theorem get_users_excludes_caller_witness:
  "\<exists>entries.
     get_users example_env example_db alice_id = ((Documents entries, 200), example_db)
     \<and> entries = [user_json example_env bob]
     \<and> list_all (\<lambda>e. doc_id e \<noteq> alice_id) entries"
proof -
  have q: "\<forall>u\<in>set (users example_db).
             ObjectId example_env (JStr (str example_env (doc_id u))) = Inr (doc_id u)"
    by (simp add: example_users) (simp add: example_env_def alice_id_def bob_id_def hexdigit_def)
  have f: "filter (\<lambda>u. doc_id u \<noteq> alice_id) (users example_db) = [bob]"
    by (simp add: example_users)
  from get_users_excludes_caller[OF example_ids(1) q] show ?thesis
    by (simp add: f list_all_iff)
qed

text \<open>
  C9. Each entry of the list GET /team returns is a stored user document in which only the
  identifier has been replaced by its text: the \<^verbatim>\<open>created_at\<close> datetime and all members
  are as stored, so every user other than the caller appears with the stored \<^verbatim>\<open>email\<close>
  and the stored \<^verbatim>\<open>password\<close> hash.
\<close>

theorem get_users_entries_are_stored_documents:
  assumes "ObjectId env (JStr current_user) = Inr caller"
  shows "\<exists>entries.
           get_users env db current_user = ((Documents entries, 200), db)
           \<and> entries =
               map (\<lambda>u. \<lparr>doc_id = str env (doc_id u),
                         created_at = Datetime (created_at u),
                         updated_at = map_option Datetime (updated_at u),
                         members = members u\<rparr>)
                   (filter (\<lambda>u. doc_id u \<noteq> caller) (users db))
           \<and> (\<forall>u\<in>set (users db). doc_id u \<noteq> caller \<longrightarrow>
                 (\<exists>e\<in>set entries. doc_id e = str env (doc_id u)
                    \<and> members e ''email'' = members u ''email''
                    \<and> members e ''password'' = members u ''password''))"
proof -
  let ?others = "filter (\<lambda>u. doc_id u \<noteq> caller) (users db)"
  let ?entries = "map (user_json env) ?others"
  from assms have r: "get_users env db current_user = ((Documents ?entries, 200), db)"
    by (simp add: get_users_def find_many_ne)
  have m: "?entries =
               map (\<lambda>u. \<lparr>doc_id = str env (doc_id u),
                         created_at = Datetime (created_at u),
                         updated_at = map_option Datetime (updated_at u),
                         members = members u\<rparr>) ?others"
    by (simp add: user_json_def)
  have e: "\<forall>u\<in>set (users db). doc_id u \<noteq> caller \<longrightarrow>
                 (\<exists>e\<in>set ?entries. doc_id e = str env (doc_id u)
                    \<and> members e ''email'' = members u ''email''
                    \<and> members e ''password'' = members u ''password'')"
    by (auto simp: user_json_def)
  show ?thesis
  proof (intro exI conjI)
    show "get_users env db current_user = ((Documents ?entries, 200), db)" by (rule r)
    show "?entries =
               map (\<lambda>u. \<lparr>doc_id = str env (doc_id u),
                         created_at = Datetime (created_at u),
                         updated_at = map_option Datetime (updated_at u),
                         members = members u\<rparr>) ?others" by (rule m)
    show "\<forall>u\<in>set (users db). doc_id u \<noteq> caller \<longrightarrow>
                 (\<exists>e\<in>set ?entries. doc_id e = str env (doc_id u)
                    \<and> members e ''email'' = members u ''email''
                    \<and> members e ''password'' = members u ''password'')" by (rule e)
  qed
qed

theorem get_users_entries_are_stored_documents_witness:
  "\<exists>entries.
     get_users example_env example_db alice_id = ((Documents entries, 200), example_db)
     \<and> entries = [\<lparr>doc_id = bob_id, created_at = Datetime 2, updated_at = None,
                    members = members bob\<rparr>]
     \<and> members (entries ! 0) ''email'' = Some (JStr ''bob@example.com'')
     \<and> members (entries ! 0) ''password'' = Some (JStr ''scrypt:builder'')"
proof -
  have f: "filter (\<lambda>u. doc_id u \<noteq> alice_id) (users example_db) = [bob]"
    by (simp add: example_users)
  from get_users_entries_are_stored_documents[OF example_ids(1), of example_db]
  obtain entries where
    r: "get_users example_env example_db alice_id = ((Documents entries, 200), example_db)"
    and m: "entries =
               map (\<lambda>u. \<lparr>doc_id = str example_env (doc_id u),
                         created_at = Datetime (created_at u),
                         updated_at = map_option Datetime (updated_at u),
                         members = members u\<rparr>)
                   (filter (\<lambda>u. doc_id u \<noteq> alice_id) (users example_db))"
    by blast
  from m f have "entries = [\<lparr>doc_id = bob_id, created_at = Datetime 2, updated_at = None,
                    members = members bob\<rparr>]"
    by (simp add: example_env_def bob_def)
  with r show ?thesis by (simp add: bob_def)
qed

subsection \<open>Updating a task and a template\<close>

lemma find_user_users_only:
  "users db' = users db \<Longrightarrow> find_user env db' v = find_user env db v"
  by (simp add: find_user_def split: sum.splits)

lemma notification_users_only:
  "users db' = users db \<Longrightarrow> notification env db' task = notification env db task"
  by (simp add: notification_def find_user_users_only[of db' db]
           split: option.splits sum.splits)

lemma example_notification:
  assumes "users db = [alice, bob]"
    and "members task ''assigned_by'' = Some (JStr alice_id)"
    and "members task ''assigned_user'' = Some (JStr bob_id)"
  shows "notification example_env db task = Inr ''Task completed by Bob Roy''"
proof -
  have ua: "find_user example_env db (JStr alice_id) = Inr (Some alice)"
    by (simp add: find_user_def example_ids find_one_id assms(1) example_users)
  have ub: "find_user example_env db (JStr bob_id) = Inr (Some bob)"
    by (simp add: find_user_def example_ids find_one_id assms(1) example_users)
  have dn: "display_name example_env (Some bob) = Inr ''Bob Roy''"
    by (simp add: display_name_def bob_def str_val_def)
  show ?thesis by (simp add: notification_def assms(2,3) ua ub dn)
qed

lemma task_put_outcome:
  assumes "ObjectId env (JStr task_id) = Inr tid"
    and "member data ''is_completed'' = Some v"
    and "tasks db = before @ task # after"
    and "\<forall>x\<in>set before. \<not> (doc_id x = tid \<and> member_is x ''assigned_user'' current_user)"
    and "doc_id task = tid"
    and "member_is task ''assigned_user'' current_user"
  shows "task_operations env db current_user PUT task_id data =
     (case write_error env v of
        Some e \<Rightarrow> ((Message e, 500), db)
      | None \<Rightarrow>
         if members task ''is_completed'' = Some v \<and> updated_at task = Some (utcnow env)
         then ((Message ''Task not found'', 404), db)
         else (case notification env db task of
                 Inl e \<Rightarrow> (Message e, 500)
               | Inr n \<Rightarrow> (Notification ''Task updated successfully'' n, 200),
               db\<lparr>tasks := before
                   @ task\<lparr>updated_at := Some (utcnow env),
                           members := (members task)(''is_completed'' \<mapsto> v)\<rparr> # after\<rparr>))"
proof -
  let ?q = "[Id_eq tid, Field_is ''assigned_user'' (JStr current_user)]"
  let ?s = "[(''is_completed'', v)]"
  from assms(4) have b: "\<forall>x\<in>set before. \<not> matches env x ?q" by (simp add: matches_id_str)
  from assms(5,6) have m: "matches env task ?q" by (simp add: matches_id_str)
  have f: "find_one env (tasks db) ?q = Inr (Some task)"
    unfolding find_one_id_str assms(3) using assms(4,5,6) by (simp add: find_first)
  have u: "update_first env (tasks db) ?q ?s (utcnow env)
       = (before @ apply_set task ?s (utcnow env) # after,
          if modifies task ?s (utcnow env) then 1 else 0)"
    unfolding assms(3) by (rule update_first_found[OF b m])
  have n: "notification env (db\<lparr>tasks := x\<rparr>) task = notification env db task" for x
    by (rule notification_users_only) simp
  from assms(1) have p: "from_str env task_id = Inr tid" by simp
  show ?thesis
  proof (cases "write_error env v")
    case (Some e)
    then show ?thesis
      by (simp add: task_operations_def p member_present[OF assms(2)] f update_one_def
            values_error_single del: values_error.simps)
  next
    case None
    show ?thesis
    proof (cases "modifies task ?s (utcnow env)")
      case True
      with None show ?thesis
        by (simp add: task_operations_def p member_present[OF assms(2)] f update_one_def
            values_error_single u n apply_set_single modifies_task
            del: values_error.simps split: sum.splits)
    next
      case False
      have e: "db\<lparr>tasks := before @ apply_set task ?s (utcnow env) # after\<rparr> = db"
        by (rule same_tasks) (simp add: apply_set_unmodified[OF False] assms(3))
      from None False show ?thesis
        by (simp add: task_operations_def p member_present[OF assms(2)] f update_one_def
            values_error_single u e modifies_task del: values_error.simps)
    qed
  qed
qed

lemma template_put_present:
  assumes "ObjectId env (JStr template_id) = Inr i"
    and "member data ''template_name'' = Some template_name"
    and "member data ''subject'' = Some subject"
    and "member data ''body'' = Some body"
  shows "template_operations env db current_user PUT template_id data =
     (case values_error env [(''template_name'', template_name), (''subject'', subject),
                             (''body'', body)] of
        Some e \<Rightarrow> ((Message e, 500), db)
      | None \<Rightarrow>
         (if snd (update_first env (templates db)
                    [Id_eq i, Field_is ''user_id'' (JStr current_user)]
                    [(''template_name'', template_name), (''subject'', subject), (''body'', body)]
                    (utcnow env)) = 0
          then (Message ''Template not found'', 404)
          else (Message ''Template updated successfully'', 200),
          db\<lparr>templates := fst (update_first env (templates db)
                    [Id_eq i, Field_is ''user_id'' (JStr current_user)]
                    [(''template_name'', template_name), (''subject'', subject), (''body'', body)]
                    (utcnow env))\<rparr>))"
  using assms(1)
  by (simp add: template_operations_def member_present[OF assms(2)]
        member_present[OF assms(3)] member_present[OF assms(4)] update_one_def
        del: values_error.simps split: option.splits)

lemma template_put_outcome:
  assumes "ObjectId env (JStr template_id) = Inr i"
    and "member data ''template_name'' = Some template_name"
    and "member data ''subject'' = Some subject"
    and "member data ''body'' = Some body"
    and "templates db = before @ t # after"
    and "\<forall>x\<in>set before. \<not> (doc_id x = i \<and> member_is x ''user_id'' current_user)"
    and "doc_id t = i"
    and "member_is t ''user_id'' current_user"
  shows "template_operations env db current_user PUT template_id data =
     (case values_error env [(''template_name'', template_name), (''subject'', subject),
                             (''body'', body)] of
        Some e \<Rightarrow> ((Message e, 500), db)
      | None \<Rightarrow>
         if members t ''template_name'' = Some template_name
            \<and> members t ''subject'' = Some subject \<and> members t ''body'' = Some body
            \<and> updated_at t = Some (utcnow env)
         then ((Message ''Template not found'', 404), db)
         else ((Message ''Template updated successfully'', 200),
               db\<lparr>templates := before
                   @ t\<lparr>updated_at := Some (utcnow env),
                        members := (members t)(''template_name'' \<mapsto> template_name,
                                     ''subject'' \<mapsto> subject, ''body'' \<mapsto> body)\<rparr> # after\<rparr>))"
proof -
  let ?q = "[Id_eq i, Field_is ''user_id'' (JStr current_user)]"
  let ?s = "[(''template_name'', template_name), (''subject'', subject), (''body'', body)]"
  from assms(6) have b: "\<forall>x\<in>set before. \<not> matches env x ?q" by (simp add: matches_id_str)
  from assms(7,8) have m: "matches env t ?q" by (simp add: matches_id_str)
  have u: "update_first env (templates db) ?q ?s (utcnow env)
       = (before @ apply_set t ?s (utcnow env) # after,
          if modifies t ?s (utcnow env) then 1 else 0)"
    unfolding assms(5) by (rule update_first_found[OF b m])
  show ?thesis
  proof (cases "modifies t ?s (utcnow env)")
    case True
    then show ?thesis
      unfolding template_put_present[OF assms(1-4)] u
      by (simp add: apply_set_template modifies_template del: values_error.simps
            split: option.splits)
  next
    case False
    have e: "db\<lparr>templates := before @ apply_set t ?s (utcnow env) # after\<rparr> = db"
      by (rule same_templates) (simp add: apply_set_unmodified[OF False] assms(5))
    from False show ?thesis
      unfolding template_put_present[OF assms(1-4)] u
      by (simp add: e modifies_template del: values_error.simps split: option.splits)
  qed
qed

lemma template_put_no_match:
  assumes "ObjectId env (JStr template_id) = Inr i"
    and "member data ''template_name'' = Some template_name"
    and "member data ''subject'' = Some subject"
    and "member data ''body'' = Some body"
    and "\<forall>x\<in>set (templates db). \<not> (doc_id x = i \<and> member_is x ''user_id'' current_user)"
  shows "template_operations env db current_user PUT template_id data =
     (case values_error env [(''template_name'', template_name), (''subject'', subject),
                             (''body'', body)] of
        Some e \<Rightarrow> ((Message e, 500), db)
      | None \<Rightarrow> ((Message ''Template not found'', 404), db))"
proof -
  let ?q = "[Id_eq i, Field_is ''user_id'' (JStr current_user)]"
  from assms(5) have "\<forall>x\<in>set (templates db). \<not> matches env x ?q"
    by (simp add: matches_id_str)
  from update_first_no_match[OF this] show ?thesis
    unfolding template_put_present[OF assms(1-4)]
    by (simp del: values_error.simps split: option.splits)
qed

text \<open>
  C6, as the code has it. Whenever PUT /task/:id answers 200, the store differs from the one
  before in a single task document: the first one with the given identifier that is assigned
  to the caller. Of that document only \<^verbatim>\<open>is_completed\<close>, now the value of the body, and
  \<^verbatim>\<open>updated_at\<close>, now the time of the request, may have changed; its other members and
  timestamps, the other tasks, the users and the templates are as before. The handler does not
  look at the value, but the driver does: for a task found for the assignee, a value that the
  driver cannot store (an integer outside 64 bits) is answered 500 and nothing is written;
  every value it can store is written and answered 200, when the stored \<^verbatim>\<open>updated_at\<close> is
  not the time of the request and the notification can be built.
\<close>

theorem task_put_frame:
  "(task_operations env db current_user PUT task_id data = ((b, 200), db') \<longrightarrow>
      (\<exists>tid v task before after.
          ObjectId env (JStr task_id) = Inr tid
        \<and> member data ''is_completed'' = Some v
        \<and> write_error env v = None
        \<and> tasks db = before @ task # after
        \<and> doc_id task = tid
        \<and> member_is task ''assigned_user'' current_user
        \<and> (\<forall>x\<in>set before.
              \<not> (doc_id x = tid \<and> member_is x ''assigned_user'' current_user))
        \<and> db' = db\<lparr>tasks := before
                    @ task\<lparr>updated_at := Some (utcnow env),
                            members := (members task)(''is_completed'' \<mapsto> v)\<rparr> # after\<rparr>))
   \<and> (\<forall>tid v task before after.
          ObjectId env (JStr task_id) = Inr tid
        \<and> member data ''is_completed'' = Some v
        \<and> tasks db = before @ task # after
        \<and> doc_id task = tid
        \<and> member_is task ''assigned_user'' current_user
        \<and> (\<forall>x\<in>set before.
              \<not> (doc_id x = tid \<and> member_is x ''assigned_user'' current_user)) \<longrightarrow>
          (\<forall>e. write_error env v = Some e \<longrightarrow>
               task_operations env db current_user PUT task_id data = ((Message e, 500), db))
        \<and> (\<forall>n. write_error env v = None \<and> updated_at task \<noteq> Some (utcnow env)
                \<and> notification env db task = Inr n \<longrightarrow>
               task_operations env db current_user PUT task_id data
                 = ((Notification ''Task updated successfully'' n, 200),
                    db\<lparr>tasks := before
                    @ task\<lparr>updated_at := Some (utcnow env),
                            members := (members task)(''is_completed'' \<mapsto> v)\<rparr> # after\<rparr>)))"
proof (intro conjI impI allI)
  assume r: "task_operations env db current_user PUT task_id data = ((b, 200), db')"
  from r obtain tid where p: "ObjectId env (JStr task_id) = Inr tid"
    by (cases "from_str env task_id") (auto simp: task_operations_def)
  from p have p': "from_str env task_id = Inr tid" by simp
  let ?P = "\<lambda>d. doc_id d = tid \<and> member_is d ''assigned_user'' current_user"
  obtain v where v: "member data ''is_completed'' = Some v"
  proof (cases "member data ''is_completed''")
    case None
    with r p' have False
      by (cases data)
         (auto simp: task_operations_def member_def find_one_id_str
               split: if_splits option.splits)
    then show ?thesis ..
  next
    case (Some v)
    then show ?thesis by (rule that)
  qed
  obtain task where f: "List.find ?P (tasks db) = Some task"
  proof (cases "List.find ?P (tasks db)")
    case None
    with r p' have False
      by (simp add: task_operations_def member_present[OF v] find_one_id_str)
    then show ?thesis ..
  next
    case (Some task)
    then show ?thesis by (rule that)
  qed
  from find_split[OF f] obtain before after where
    s: "tasks db = before @ task # after" "\<forall>x\<in>set before. \<not> ?P x" "?P task"
    by blast
  from s(3) have i: "doc_id task = tid" and m: "member_is task ''assigned_user'' current_user"
    by simp_all
  note o = task_put_outcome[OF p v s(1) s(2) i m]
  from r have w: "write_error env v = None"
    unfolding o by (cases "write_error env v") simp_all
  from r w have d: "db' = db\<lparr>tasks := before
                    @ task\<lparr>updated_at := Some (utcnow env),
                            members := (members task)(''is_completed'' \<mapsto> v)\<rparr> # after\<rparr>"
    unfolding o by (simp split: if_splits)
  show "\<exists>tid v task before after.
          ObjectId env (JStr task_id) = Inr tid
        \<and> member data ''is_completed'' = Some v
        \<and> write_error env v = None
        \<and> tasks db = before @ task # after
        \<and> doc_id task = tid
        \<and> member_is task ''assigned_user'' current_user
        \<and> (\<forall>x\<in>set before.
              \<not> (doc_id x = tid \<and> member_is x ''assigned_user'' current_user))
        \<and> db' = db\<lparr>tasks := before
                    @ task\<lparr>updated_at := Some (utcnow env),
                            members := (members task)(''is_completed'' \<mapsto> v)\<rparr> # after\<rparr>"
  proof (intro exI conjI)
    show "ObjectId env (JStr task_id) = Inr tid" by (rule p)
    show "member data ''is_completed'' = Some v" by (rule v)
    show "write_error env v = None" by (rule w)
    show "tasks db = before @ task # after" by (rule s(1))
    show "doc_id task = tid" by (rule i)
    show "member_is task ''assigned_user'' current_user" by (rule m)
    show "\<forall>x\<in>set before.
              \<not> (doc_id x = tid \<and> member_is x ''assigned_user'' current_user)" by (rule s(2))
    show "db' = db\<lparr>tasks := before
                    @ task\<lparr>updated_at := Some (utcnow env),
                            members := (members task)(''is_completed'' \<mapsto> v)\<rparr> # after\<rparr>" by (rule d)
  qed
next
  fix tid v task before after e
  assume a: "ObjectId env (JStr task_id) = Inr tid
        \<and> member data ''is_completed'' = Some v
        \<and> tasks db = before @ task # after
        \<and> doc_id task = tid
        \<and> member_is task ''assigned_user'' current_user
        \<and> (\<forall>x\<in>set before.
              \<not> (doc_id x = tid \<and> member_is x ''assigned_user'' current_user))"
    and w: "write_error env v = Some e"
  from a have "task_operations env db current_user PUT task_id data =
     (case write_error env v of
        Some e \<Rightarrow> ((Message e, 500), db)
      | None \<Rightarrow>
         if members task ''is_completed'' = Some v \<and> updated_at task = Some (utcnow env)
         then ((Message ''Task not found'', 404), db)
         else (case notification env db task of
                 Inl e \<Rightarrow> (Message e, 500)
               | Inr n \<Rightarrow> (Notification ''Task updated successfully'' n, 200),
               db\<lparr>tasks := before
                   @ task\<lparr>updated_at := Some (utcnow env),
                            members := (members task)(''is_completed'' \<mapsto> v)\<rparr> # after\<rparr>))"
    by (intro task_put_outcome) simp_all
  with w show "task_operations env db current_user PUT task_id data = ((Message e, 500), db)"
    by simp
next
  fix tid v task before after n
  assume a: "ObjectId env (JStr task_id) = Inr tid
        \<and> member data ''is_completed'' = Some v
        \<and> tasks db = before @ task # after
        \<and> doc_id task = tid
        \<and> member_is task ''assigned_user'' current_user
        \<and> (\<forall>x\<in>set before.
              \<not> (doc_id x = tid \<and> member_is x ''assigned_user'' current_user))"
    and w: "write_error env v = None \<and> updated_at task \<noteq> Some (utcnow env)
                \<and> notification env db task = Inr n"
  from a have "task_operations env db current_user PUT task_id data =
     (case write_error env v of
        Some e \<Rightarrow> ((Message e, 500), db)
      | None \<Rightarrow>
         if members task ''is_completed'' = Some v \<and> updated_at task = Some (utcnow env)
         then ((Message ''Task not found'', 404), db)
         else (case notification env db task of
                 Inl e \<Rightarrow> (Message e, 500)
               | Inr n \<Rightarrow> (Notification ''Task updated successfully'' n, 200),
               db\<lparr>tasks := before
                   @ task\<lparr>updated_at := Some (utcnow env),
                            members := (members task)(''is_completed'' \<mapsto> v)\<rparr> # after\<rparr>))"
    by (intro task_put_outcome) simp_all
  with w show "task_operations env db current_user PUT task_id data
                 = ((Notification ''Task updated successfully'' n, 200),
                    db\<lparr>tasks := before
                    @ task\<lparr>updated_at := Some (utcnow env),
                            members := (members task)(''is_completed'' \<mapsto> v)\<rparr> # after\<rparr>)"
    by simp
qed

theorem task_put_frame_witness:
  "task_operations example_env example_db bob_id PUT call_id (completion_data (JNum 7))
     = ((Notification ''Task updated successfully'' ''Task completed by Bob Roy'', 200),
        example_db\<lparr>tasks := [call_task\<lparr>updated_at := Some 1000,
          members := (members call_task)(''is_completed'' \<mapsto> JNum 7)\<rparr>]\<rparr>)
   \<and> task_operations example_env example_db bob_id PUT call_id
        (completion_data (JNum 9223372036854775808))
     = ((Message ''MongoDB can only handle up to 8-byte ints'', 500), example_db)"
proof -
  let ?r = "task_operations example_env example_db bob_id PUT call_id (completion_data (JNum 7))"
  have n: "notification example_env example_db call_task = Inr ''Task completed by Bob Roy''"
    by (rule example_notification) (simp_all add: example_users example_task)
  have w: "write_error example_env (JNum 7) = None" by (simp add: example_write_error)
  have u: "updated_at call_task \<noteq> Some (utcnow example_env)" by (simp add: example_task)
  have b: "\<forall>x\<in>set []. \<not> (doc_id x = call_id \<and> member_is x ''assigned_user'' bob_id)" by simp
  note t = task_put_frame[of example_env example_db bob_id call_id "completion_data (JNum 7)"
      "fst (fst ?r)" "snd ?r"]
  from t example_ids(4) completion_data_member[of "JNum 7"] example_stores(2) example_task(1,2)
    b w u n
  have one: "?r = ((Notification ''Task updated successfully'' ''Task completed by Bob Roy'', 200),
        example_db\<lparr>tasks := []
          @ call_task\<lparr>updated_at := Some (utcnow example_env),
              members := (members call_task)(''is_completed'' \<mapsto> JNum 7)\<rparr> # []\<rparr>)"
    by blast
  then have "?r = ((fst (fst ?r), 200), snd ?r)" by simp
  with t obtain tid v task before after where
    f: "member (completion_data (JNum 7)) ''is_completed'' = Some v"
       "tasks example_db = before @ task # after"
       "snd ?r = example_db\<lparr>tasks := before
                    @ task\<lparr>updated_at := Some (utcnow example_env),
                            members := (members task)(''is_completed'' \<mapsto> v)\<rparr> # after\<rparr>"
    by blast
  from f(2) have "before = [] \<and> task = call_task \<and> after = []"
    by (cases before) (simp_all add: example_db_def)
  with f(1,3) have st: "snd ?r = example_db\<lparr>tasks := [call_task\<lparr>updated_at := Some 1000,
          members := (members call_task)(''is_completed'' \<mapsto> JNum 7)\<rparr>]\<rparr>"
    by (simp add: example_now completion_data_member)
  have w2: "write_error example_env (JNum 9223372036854775808)
              = Some ''MongoDB can only handle up to 8-byte ints''"
    by (simp add: example_write_error)
  from task_put_frame[of example_env example_db bob_id call_id
      "completion_data (JNum 9223372036854775808)"]
    example_ids(4) completion_data_member[of "JNum 9223372036854775808"] example_stores(2)
    example_task(1,2) b w2
  have two: "task_operations example_env example_db bob_id PUT call_id
        (completion_data (JNum 9223372036854775808))
     = ((Message ''MongoDB can only handle up to 8-byte ints'', 500), example_db)"
    by blast
  from one st two show ?thesis by simp
qed

text \<open>
  C6 as stated fails: not every value of \<^verbatim>\<open>is_completed\<close> is accepted. For the task of the
  example store and its assignee, the value 9223372036854775808 is answered 500 and the store is
  unchanged.
\<close>

theorem task_put_overflow_counterexample:
  "ObjectId example_env (JStr call_id) = Inr call_id
   \<and> tasks example_db = [call_task]
   \<and> doc_id call_task = call_id
   \<and> members call_task ''assigned_user'' = Some (JStr bob_id)
   \<and> member (completion_data (JNum 9223372036854775808)) ''is_completed''
       = Some (JNum 9223372036854775808)
   \<and> task_operations example_env example_db bob_id PUT call_id
        (completion_data (JNum 9223372036854775808))
       = ((Message ''MongoDB can only handle up to 8-byte ints'', 500), example_db)"
proof -
  have b: "\<forall>x\<in>set []. \<not> (doc_id x = call_id \<and> member_is x ''assigned_user'' bob_id)" by simp
  have "task_operations example_env example_db bob_id PUT call_id
        (completion_data (JNum 9223372036854775808))
       = ((Message ''MongoDB can only handle up to 8-byte ints'', 500), example_db)"
    unfolding task_put_outcome[OF example_ids(4) completion_data_member example_stores(2) b
        example_task(1,2)]
    by (simp add: example_write_error)
  then show ?thesis
    by (simp add: example_ids example_task completion_data_member) (simp add: example_db_def)
qed

text \<open>
  C2, as the code has it. Let the template PUT carry the three required members and find a
  template of the caller; let the task PUT carry \<^verbatim>\<open>is_completed\<close> and find a task of the
  caller. When the driver cannot store a value, the answer is 500 and the store is unchanged.
  Otherwise each handler answers 404 exactly when the write modifies nothing, and then the
  store is unchanged. The write sets \<^verbatim>\<open>updated_at\<close> to the time of the request besides
  the members of the body, so it modifies nothing only when the stored members equal the ones
  of the body and the stored \<^verbatim>\<open>updated_at\<close> already is that time. A PUT that repeats the
  stored values at any other time modifies the document, which then carries the new time: the
  template PUT answers 200; the task PUT answers 200 with the notification, or 500 with the
  text of the exception when the notification cannot be built.
\<close>

theorem put_not_found_iff_nothing_modified:
  "(\<forall>i template_name subject body before t after.
        ObjectId env (JStr template_id) = Inr i
      \<and> member template_request ''template_name'' = Some template_name
      \<and> member template_request ''subject'' = Some subject
      \<and> member template_request ''body'' = Some body
      \<and> templates db = before @ t # after
      \<and> (\<forall>x\<in>set before. \<not> (doc_id x = i \<and> member_is x ''user_id'' owner))
      \<and> doc_id t = i
      \<and> member_is t ''user_id'' owner \<longrightarrow>
        template_operations env db owner PUT template_id template_request =
          (case values_error env [(''template_name'', template_name), (''subject'', subject),
                                  (''body'', body)] of
             Some e \<Rightarrow> ((Message e, 500), db)
           | None \<Rightarrow>
              if members t ''template_name'' = Some template_name
                 \<and> members t ''subject'' = Some subject \<and> members t ''body'' = Some body
                 \<and> updated_at t = Some (utcnow env)
              then ((Message ''Template not found'', 404), db)
              else ((Message ''Template updated successfully'', 200),
                    db\<lparr>templates := before
                       @ t\<lparr>updated_at := Some (utcnow env),
                         members := (members t)(''template_name'' \<mapsto> template_name,
                                      ''subject'' \<mapsto> subject, ''body'' \<mapsto> body)\<rparr> # after\<rparr>)))
   \<and> (\<forall>tid v before task after.
        ObjectId env (JStr task_id) = Inr tid
      \<and> member task_request ''is_completed'' = Some v
      \<and> tasks db = before @ task # after
      \<and> (\<forall>x\<in>set before. \<not> (doc_id x = tid \<and> member_is x ''assigned_user'' assignee))
      \<and> doc_id task = tid
      \<and> member_is task ''assigned_user'' assignee \<longrightarrow>
        task_operations env db assignee PUT task_id task_request =
          (case write_error env v of
             Some e \<Rightarrow> ((Message e, 500), db)
           | None \<Rightarrow>
              if members task ''is_completed'' = Some v \<and> updated_at task = Some (utcnow env)
              then ((Message ''Task not found'', 404), db)
              else (case notification env db task of
                      Inl e \<Rightarrow> (Message e, 500)
                    | Inr n \<Rightarrow> (Notification ''Task updated successfully'' n, 200),
                    db\<lparr>tasks := before
                       @ task\<lparr>updated_at := Some (utcnow env),
                            members := (members task)(''is_completed'' \<mapsto> v)\<rparr> # after\<rparr>)))"
proof (intro conjI impI allI)
  fix i template_name subject body before t after
  assume "ObjectId env (JStr template_id) = Inr i
      \<and> member template_request ''template_name'' = Some template_name
      \<and> member template_request ''subject'' = Some subject
      \<and> member template_request ''body'' = Some body
      \<and> templates db = before @ t # after
      \<and> (\<forall>x\<in>set before. \<not> (doc_id x = i \<and> member_is x ''user_id'' owner))
      \<and> doc_id t = i
      \<and> member_is t ''user_id'' owner"
  then show "template_operations env db owner PUT template_id template_request =
          (case values_error env [(''template_name'', template_name), (''subject'', subject),
                                  (''body'', body)] of
             Some e \<Rightarrow> ((Message e, 500), db)
           | None \<Rightarrow>
              if members t ''template_name'' = Some template_name
                 \<and> members t ''subject'' = Some subject \<and> members t ''body'' = Some body
                 \<and> updated_at t = Some (utcnow env)
              then ((Message ''Template not found'', 404), db)
              else ((Message ''Template updated successfully'', 200),
                    db\<lparr>templates := before
                       @ t\<lparr>updated_at := Some (utcnow env),
                         members := (members t)(''template_name'' \<mapsto> template_name,
                                      ''subject'' \<mapsto> subject, ''body'' \<mapsto> body)\<rparr> # after\<rparr>))"
    by (intro template_put_outcome) simp_all
next
  fix tid v before task after
  assume "ObjectId env (JStr task_id) = Inr tid
      \<and> member task_request ''is_completed'' = Some v
      \<and> tasks db = before @ task # after
      \<and> (\<forall>x\<in>set before. \<not> (doc_id x = tid \<and> member_is x ''assigned_user'' assignee))
      \<and> doc_id task = tid
      \<and> member_is task ''assigned_user'' assignee"
  then show "task_operations env db assignee PUT task_id task_request =
          (case write_error env v of
             Some e \<Rightarrow> ((Message e, 500), db)
           | None \<Rightarrow>
              if members task ''is_completed'' = Some v \<and> updated_at task = Some (utcnow env)
              then ((Message ''Task not found'', 404), db)
              else (case notification env db task of
                      Inl e \<Rightarrow> (Message e, 500)
                    | Inr n \<Rightarrow> (Notification ''Task updated successfully'' n, 200),
                    db\<lparr>tasks := before
                       @ task\<lparr>updated_at := Some (utcnow env),
                            members := (members task)(''is_completed'' \<mapsto> v)\<rparr> # after\<rparr>))"
    by (intro task_put_outcome) simp_all
qed

theorem put_not_found_iff_nothing_modified_witness:
  "template_operations example_env (updated_db 1000) alice_id PUT welcome_id welcome_data
     = ((Message ''Template not found'', 404), updated_db 1000)
   \<and> task_operations example_env (updated_db 1000) bob_id PUT call_id (completion_data (JNum 1))
     = ((Message ''Task not found'', 404), updated_db 1000)
   \<and> template_operations example_env example_db alice_id PUT welcome_id welcome_data
     = ((Message ''Template updated successfully'', 200),
        example_db\<lparr>templates := [welcome_template\<lparr>updated_at := Some 1000\<rparr>]\<rparr>)
   \<and> task_operations example_env example_db bob_id PUT call_id (completion_data (JNum 1))
     = ((Notification ''Task updated successfully'' ''Task completed by Bob Roy'', 200),
        example_db\<lparr>tasks := [call_task\<lparr>updated_at := Some 1000,
          members := (members call_task)(''is_completed'' \<mapsto> JNum 1)\<rparr>]\<rparr>)"
proof -
  have b: "\<forall>x\<in>set []. \<not> (doc_id x = welcome_id \<and> member_is x ''user_id'' alice_id)"
    "\<forall>x\<in>set []. \<not> (doc_id x = call_id \<and> member_is x ''assigned_user'' bob_id)"
    by simp_all
  have k: "doc_id (call_task\<lparr>updated_at := Some 1000,
                       members := (members call_task)(''is_completed'' \<mapsto> JNum 1)\<rparr>) = call_id"
    "member_is (call_task\<lparr>updated_at := Some 1000,
                       members := (members call_task)(''is_completed'' \<mapsto> JNum 1)\<rparr>)
       ''assigned_user'' bob_id"
    by (simp_all add: call_task_def member_is_def)
  have same: "welcome_template\<lparr>updated_at := Some 1000,
                 members := (members welcome_template)(''template_name'' \<mapsto> JStr ''Welcome'',
                     ''subject'' \<mapsto> JStr ''Hello'', ''body'' \<mapsto> JStr ''Dear team'')\<rparr>
              = welcome_template\<lparr>updated_at := Some 1000\<rparr>"
    by (simp add: welcome_template_def)
  have n: "notification example_env example_db call_task = Inr ''Task completed by Bob Roy''"
    by (rule example_notification) (simp_all add: example_users example_task)
  note t1 = put_not_found_iff_nothing_modified[where env = example_env and db = "updated_db 1000"
      and template_id = welcome_id and template_request = welcome_data and owner = alice_id
      and task_id = call_id and task_request = "completion_data (JNum 1)" and assignee = bob_id]
  from t1 example_ids(3) welcome_data_members example_stores(3)[of 1000] b(1)
    example_template(4,5)[of 1000]
  have "template_operations example_env (updated_db 1000) alice_id PUT welcome_id welcome_data =
          (case values_error example_env [(''template_name'', JStr ''Welcome''),
                  (''subject'', JStr ''Hello''), (''body'', JStr ''Dear team'')] of
             Some e \<Rightarrow> ((Message e, 500), updated_db 1000)
           | None \<Rightarrow>
              if members (welcome_template\<lparr>updated_at := Some 1000\<rparr>) ''template_name''
                   = Some (JStr ''Welcome'')
                 \<and> members (welcome_template\<lparr>updated_at := Some 1000\<rparr>) ''subject''
                   = Some (JStr ''Hello'')
                 \<and> members (welcome_template\<lparr>updated_at := Some 1000\<rparr>) ''body''
                   = Some (JStr ''Dear team'')
                 \<and> updated_at (welcome_template\<lparr>updated_at := Some 1000\<rparr>)
                   = Some (utcnow example_env)
              then ((Message ''Template not found'', 404), updated_db 1000)
              else ((Message ''Template updated successfully'', 200),
                    (updated_db 1000)\<lparr>templates := []
                       @ (welcome_template\<lparr>updated_at := Some 1000\<rparr>)
                           \<lparr>updated_at := Some (utcnow example_env),
                            members := (members (welcome_template\<lparr>updated_at := Some 1000\<rparr>))
                              (''template_name'' \<mapsto> JStr ''Welcome'',
                               ''subject'' \<mapsto> JStr ''Hello'',
                               ''body'' \<mapsto> JStr ''Dear team'')\<rparr> # []\<rparr>))"
    by blast
  then have one: "template_operations example_env (updated_db 1000) alice_id PUT welcome_id
       welcome_data = ((Message ''Template not found'', 404), updated_db 1000)"
    by (simp add: example_write_error example_now example_template)
  from t1 example_ids(4) completion_data_member[of "JNum 1"] example_stores(4)[of 1000] b(2) k
  have "task_operations example_env (updated_db 1000) bob_id PUT call_id
          (completion_data (JNum 1)) =
          (case write_error example_env (JNum 1) of
             Some e \<Rightarrow> ((Message e, 500), updated_db 1000)
           | None \<Rightarrow>
              if members (call_task\<lparr>updated_at := Some 1000,
                       members := (members call_task)(''is_completed'' \<mapsto> JNum 1)\<rparr>)
                     ''is_completed'' = Some (JNum 1)
                 \<and> updated_at (call_task\<lparr>updated_at := Some 1000,
                       members := (members call_task)(''is_completed'' \<mapsto> JNum 1)\<rparr>)
                     = Some (utcnow example_env)
              then ((Message ''Task not found'', 404), updated_db 1000)
              else (case notification example_env (updated_db 1000)
                           (call_task\<lparr>updated_at := Some 1000,
                       members := (members call_task)(''is_completed'' \<mapsto> JNum 1)\<rparr>) of
                      Inl e \<Rightarrow> (Message e, 500)
                    | Inr n \<Rightarrow> (Notification ''Task updated successfully'' n, 200),
                    (updated_db 1000)\<lparr>tasks := []
                       @ (call_task\<lparr>updated_at := Some 1000,
                       members := (members call_task)(''is_completed'' \<mapsto> JNum 1)\<rparr>)
                          \<lparr>updated_at := Some (utcnow example_env),
                           members := (members (call_task\<lparr>updated_at := Some 1000,
                       members := (members call_task)(''is_completed'' \<mapsto> JNum 1)\<rparr>))
                              (''is_completed'' \<mapsto> JNum 1)\<rparr> # []\<rparr>))"
    by blast
  then have two: "task_operations example_env (updated_db 1000) bob_id PUT call_id
       (completion_data (JNum 1)) = ((Message ''Task not found'', 404), updated_db 1000)"
    by (simp add: example_write_error example_now)
  note t2 = put_not_found_iff_nothing_modified[where env = example_env and db = example_db
      and template_id = welcome_id and template_request = welcome_data and owner = alice_id
      and task_id = call_id and task_request = "completion_data (JNum 1)" and assignee = bob_id]
  from t2 example_ids(3) welcome_data_members example_stores(1) b(1) example_template(1,3)
  have "template_operations example_env example_db alice_id PUT welcome_id welcome_data =
          (case values_error example_env [(''template_name'', JStr ''Welcome''),
                  (''subject'', JStr ''Hello''), (''body'', JStr ''Dear team'')] of
             Some e \<Rightarrow> ((Message e, 500), example_db)
           | None \<Rightarrow>
              if members welcome_template ''template_name'' = Some (JStr ''Welcome'')
                 \<and> members welcome_template ''subject'' = Some (JStr ''Hello'')
                 \<and> members welcome_template ''body'' = Some (JStr ''Dear team'')
                 \<and> updated_at welcome_template = Some (utcnow example_env)
              then ((Message ''Template not found'', 404), example_db)
              else ((Message ''Template updated successfully'', 200),
                    example_db\<lparr>templates := []
                       @ welcome_template
                           \<lparr>updated_at := Some (utcnow example_env),
                            members := (members welcome_template)
                              (''template_name'' \<mapsto> JStr ''Welcome'',
                               ''subject'' \<mapsto> JStr ''Hello'',
                               ''body'' \<mapsto> JStr ''Dear team'')\<rparr> # []\<rparr>))"
    by blast
  then have three: "template_operations example_env example_db alice_id PUT welcome_id
       welcome_data = ((Message ''Template updated successfully'', 200),
        example_db\<lparr>templates := [welcome_template\<lparr>updated_at := Some 1000\<rparr>]\<rparr>)"
    by (simp add: example_write_error example_now example_template same)
  from t2 example_ids(4) completion_data_member[of "JNum 1"] example_stores(2) b(2)
    example_task(1,2)
  have "task_operations example_env example_db bob_id PUT call_id (completion_data (JNum 1)) =
          (case write_error example_env (JNum 1) of
             Some e \<Rightarrow> ((Message e, 500), example_db)
           | None \<Rightarrow>
              if members call_task ''is_completed'' = Some (JNum 1)
                 \<and> updated_at call_task = Some (utcnow example_env)
              then ((Message ''Task not found'', 404), example_db)
              else (case notification example_env example_db call_task of
                      Inl e \<Rightarrow> (Message e, 500)
                    | Inr n \<Rightarrow> (Notification ''Task updated successfully'' n, 200),
                    example_db\<lparr>tasks := []
                       @ call_task\<lparr>updated_at := Some (utcnow example_env),
                           members := (members call_task)
                              (''is_completed'' \<mapsto> JNum 1)\<rparr> # []\<rparr>))"
    by blast
  then have four: "task_operations example_env example_db bob_id PUT call_id
       (completion_data (JNum 1))
     = ((Notification ''Task updated successfully'' ''Task completed by Bob Roy'', 200),
        example_db\<lparr>tasks := [call_task\<lparr>updated_at := Some 1000,
          members := (members call_task)(''is_completed'' \<mapsto> JNum 1)\<rparr>]\<rparr>)"
    by (simp add: example_write_error example_now example_task n)
  from one two three four show ?thesis by simp
qed

text \<open>
  C2 as stated fails: in the example store after both documents were updated at time 500, a
  template PUT by the owner at time 1000 whose three members equal the stored ones answers 200,
  and so does a task PUT by the assignee that repeats \<^verbatim>\<open>is_completed = 1\<close>; both documents
  then carry the time 1000.
\<close>

theorem put_same_values_counterexample:
  "templates (updated_db 500) = [welcome_template\<lparr>updated_at := Some 500\<rparr>]
   \<and> doc_id (welcome_template\<lparr>updated_at := Some 500\<rparr>) = welcome_id
   \<and> members (welcome_template\<lparr>updated_at := Some 500\<rparr>) ''user_id'' = Some (JStr alice_id)
   \<and> members (welcome_template\<lparr>updated_at := Some 500\<rparr>) ''template_name''
       = member welcome_data ''template_name''
   \<and> members (welcome_template\<lparr>updated_at := Some 500\<rparr>) ''subject''
       = member welcome_data ''subject''
   \<and> members (welcome_template\<lparr>updated_at := Some 500\<rparr>) ''body'' = member welcome_data ''body''
   \<and> template_operations example_env (updated_db 500) alice_id PUT welcome_id welcome_data
       = ((Message ''Template updated successfully'', 200),
          (updated_db 500)\<lparr>templates := [welcome_template\<lparr>updated_at := Some 1000\<rparr>]\<rparr>)
   \<and> map doc_id (tasks (updated_db 500)) = [call_id]
   \<and> map (\<lambda>d. members d ''assigned_user'') (tasks (updated_db 500)) = [Some (JStr bob_id)]
   \<and> map (\<lambda>d. members d ''is_completed'') (tasks (updated_db 500)) = [Some (JNum 1)]
   \<and> task_operations example_env (updated_db 500) bob_id PUT call_id (completion_data (JNum 1))
       = ((Notification ''Task updated successfully'' ''Task completed by Bob Roy'', 200),
          (updated_db 500)\<lparr>tasks := [call_task\<lparr>updated_at := Some 1000,
             members := (members call_task)(''is_completed'' \<mapsto> JNum 1)\<rparr>]\<rparr>)"
proof -
  have b: "\<forall>x\<in>set []. \<not> (doc_id x = welcome_id \<and> member_is x ''user_id'' alice_id)"
    "\<forall>x\<in>set []. \<not> (doc_id x = call_id \<and> member_is x ''assigned_user'' bob_id)"
    by simp_all
  let ?task = "call_task\<lparr>updated_at := Some 500,
                       members := (members call_task)(''is_completed'' \<mapsto> JNum 1)\<rparr>"
  have k: "doc_id ?task = call_id" "member_is ?task ''assigned_user'' bob_id"
    by (simp_all add: call_task_def member_is_def)
  have m: "templates (updated_db 500) = [welcome_template\<lparr>updated_at := Some 500\<rparr>]
   \<and> doc_id (welcome_template\<lparr>updated_at := Some 500\<rparr>) = welcome_id
   \<and> members (welcome_template\<lparr>updated_at := Some 500\<rparr>) ''user_id'' = Some (JStr alice_id)
   \<and> members (welcome_template\<lparr>updated_at := Some 500\<rparr>) ''template_name''
       = member welcome_data ''template_name''
   \<and> members (welcome_template\<lparr>updated_at := Some 500\<rparr>) ''subject''
       = member welcome_data ''subject''
   \<and> members (welcome_template\<lparr>updated_at := Some 500\<rparr>) ''body'' = member welcome_data ''body''"
    by (simp add: welcome_data_members example_template) (simp add: updated_db_def)
  have t: "template_operations example_env (updated_db 500) alice_id PUT welcome_id welcome_data
       = ((Message ''Template updated successfully'', 200),
          (updated_db 500)\<lparr>templates := [welcome_template\<lparr>updated_at := Some 1000\<rparr>]\<rparr>)"
    unfolding template_put_outcome[OF example_ids(3) welcome_data_members
        example_stores(3)[of 500] b(1) example_template(4,5)]
    by (simp add: example_write_error example_now example_template)
       (simp add: welcome_template_def)
  have k0: "map doc_id (tasks (updated_db 500)) = [call_id]
   \<and> map (\<lambda>d. members d ''assigned_user'') (tasks (updated_db 500)) = [Some (JStr bob_id)]
   \<and> map (\<lambda>d. members d ''is_completed'') (tasks (updated_db 500)) = [Some (JNum 1)]"
    by (simp add: updated_db_def call_task_def)
  have n: "notification example_env (updated_db 500) ?task = Inr ''Task completed by Bob Roy''"
    by (rule example_notification) (simp_all add: example_stores example_task)
  have c: "task_operations example_env (updated_db 500) bob_id PUT call_id
       (completion_data (JNum 1))
       = ((Notification ''Task updated successfully'' ''Task completed by Bob Roy'', 200),
          (updated_db 500)\<lparr>tasks := [call_task\<lparr>updated_at := Some 1000,
             members := (members call_task)(''is_completed'' \<mapsto> JNum 1)\<rparr>]\<rparr>)"
    unfolding task_put_outcome[OF example_ids(4) completion_data_member
        example_stores(4)[of 500] b(2) k]
    by (simp add: example_write_error example_now n)
  from m t k0 c show ?thesis by simp
qed

subsection \<open>The owner of a template\<close>

lemma template_get_delete_found:
  assumes "ObjectId env (JStr template_id) = Inr i"
    and "templates db = before @ t # after"
    and "\<forall>x\<in>set before. \<not> (doc_id x = i \<and> member_is x ''user_id'' current_user)"
    and "doc_id t = i"
    and "member_is t ''user_id'' current_user"
  shows "template_operations env db current_user GET template_id data
           = ((Document (template_json env t), 200), db)"
    and "template_operations env db current_user DELETE template_id data
           = ((Message ''Template deleted successfully'', 200),
              db\<lparr>templates := before @ after\<rparr>)"
proof -
  let ?q = "[Id_eq i, Field_is ''user_id'' (JStr current_user)]"
  from assms(1) have p: "from_str env template_id = Inr i" by simp
  from assms(3) have b: "\<forall>x\<in>set before. \<not> matches env x ?q" by (simp add: matches_id_str)
  from assms(4,5) have m: "matches env t ?q" by (simp add: matches_id_str)
  have f: "find_one env (templates db) ?q = Inr (Some t)"
    unfolding find_one_id_str assms(2) using assms(3,4,5) by (simp add: find_first)
  show "template_operations env db current_user GET template_id data
           = ((Document (template_json env t), 200), db)"
    by (simp add: template_operations_def p f)
  have "delete_first env (templates db) ?q = (before @ after, 1)"
    unfolding assms(2) by (rule delete_first_found[OF b m])
  then show "template_operations env db current_user DELETE template_id data
           = ((Message ''Template deleted successfully'', 200),
              db\<lparr>templates := before @ after\<rparr>)"
    by (simp add: template_operations_def p delete_one_def)
qed

lemma template_get_delete_no_match:
  assumes "ObjectId env (JStr template_id) = Inr i"
    and "\<forall>x\<in>set (templates db). \<not> (doc_id x = i \<and> member_is x ''user_id'' current_user)"
  shows "template_operations env db current_user GET template_id data
           = ((Message ''Template not found'', 404), db)"
    and "template_operations env db current_user DELETE template_id data
           = ((Message ''Template not found'', 404), db)"
proof -
  let ?q = "[Id_eq i, Field_is ''user_id'' (JStr current_user)]"
  from assms(1) have p: "from_str env template_id = Inr i" by simp
  from assms(2) have n: "\<forall>x\<in>set (templates db). \<not> matches env x ?q"
    by (simp add: matches_id_str)
  from assms(2) have f: "find_one env (templates db) ?q = Inr None"
    unfolding find_one_id_str by (simp add: find_none)
  show "template_operations env db current_user GET template_id data
           = ((Message ''Template not found'', 404), db)"
    by (simp add: template_operations_def p f)
  from delete_first_no_match[OF n]
  show "template_operations env db current_user DELETE template_id data
           = ((Message ''Template not found'', 404), db)"
    by (simp add: template_operations_def p delete_one_def)
qed

lemma template_put_incomplete:
  assumes "ObjectId env (JStr template_id) = Inr i"
    and "kvs \<noteq> []"
    and "map_of kvs ''template_name'' = None \<or> map_of kvs ''subject'' = None
         \<or> map_of kvs ''body'' = None"
  shows "template_operations env db current_user PUT template_id (JObj kvs)
           = ((Message ''Missing required fields'', 400), db)"
  using assms by (auto simp: template_operations_def)

text \<open>
  C1, as the code has it. Let the templates collection hold a template (identifiers being
  unique in the collection) whose \<^verbatim>\<open>user_id\<close> is the identity of A, let B be another
  identity, and let the path carry the template's identifier.
  \<^item> B's GET and B's DELETE answer 404 (\<^verbatim>\<open>Template not found\<close>) and leave the whole store
    unchanged; so does B's PUT with the three required members, when the driver can store
    them.
  \<^item> A's GET answers 200 with the document, identifier and timestamps as text, and leaves the
    store unchanged.
  \<^item> A's DELETE answers 200 and the store is the old one without that document.
  \<^item> A's PUT with three required members that the driver can store answers 200, and the
    store is the old one with these three members and \<^verbatim>\<open>updated_at\<close> written into that
    document; unless the write modifies nothing (the stored members and \<^verbatim>\<open>updated_at\<close>
    already are the written ones): then it answers 404 and the store is unchanged.
  \<^item> A PUT with three required members of which the driver cannot store one answers 500
    for A and for B, and the store is unchanged.
  \<^item> A PUT whose body is an object that lacks one of the three members answers 400 for any
    caller, before the store is consulted.
\<close>

theorem template_owner_only:
  assumes "templates db = before @ t # after"
    and "distinct (map doc_id (templates db))"
    and "members t ''user_id'' = Some (JStr a)"
    and "b \<noteq> a"
    and "ObjectId env (JStr template_id) = Inr (doc_id t)"
    and "member data ''template_name'' = Some template_name"
    and "member data ''subject'' = Some subject"
    and "member data ''body'' = Some body"
  shows "template_operations env db b GET template_id ignored
           = ((Message ''Template not found'', 404), db)
       \<and> template_operations env db b DELETE template_id ignored
           = ((Message ''Template not found'', 404), db)
       \<and> (write_error env template_name = None \<and> write_error env subject = None
            \<and> write_error env body = None \<longrightarrow>
          template_operations env db b PUT template_id data
            = ((Message ''Template not found'', 404), db))
       \<and> template_operations env db a GET template_id ignored
           = ((Document \<lparr>doc_id = str env (doc_id t),
                          created_at = Text (isoformat env (created_at t)),
                          updated_at = map_option (\<lambda>u. Text (isoformat env u)) (updated_at t),
                          members = members t\<rparr>, 200), db)
       \<and> template_operations env db a DELETE template_id ignored
           = ((Message ''Template deleted successfully'', 200),
              db\<lparr>templates := before @ after\<rparr>)
       \<and> (write_error env template_name = None \<and> write_error env subject = None
            \<and> write_error env body = None \<longrightarrow>
          template_operations env db a PUT template_id data
            = (if members t ''template_name'' = Some template_name
                  \<and> members t ''subject'' = Some subject \<and> members t ''body'' = Some body
                  \<and> updated_at t = Some (utcnow env)
               then ((Message ''Template not found'', 404), db)
               else ((Message ''Template updated successfully'', 200),
                     db\<lparr>templates := before
                        @ t\<lparr>updated_at := Some (utcnow env),
                         members := (members t)(''template_name'' \<mapsto> template_name,
                                      ''subject'' \<mapsto> subject, ''body'' \<mapsto> body)\<rparr> # after\<rparr>)))
       \<and> (\<forall>e u. values_error env [(''template_name'', template_name), (''subject'', subject),
                                    (''body'', body)] = Some e \<and> (u = a \<or> u = b) \<longrightarrow>
            template_operations env db u PUT template_id data = ((Message e, 500), db))
       \<and> (\<forall>u kvs. kvs \<noteq> []
             \<and> (map_of kvs ''template_name'' = None \<or> map_of kvs ''subject'' = None
                  \<or> map_of kvs ''body'' = None) \<longrightarrow>
            template_operations env db u PUT template_id (JObj kvs)
              = ((Message ''Missing required fields'', 400), db))"
proof -
  from assms(1,2) have others: "\<forall>x\<in>set before. doc_id x \<noteq> doc_id t"
    "\<forall>x\<in>set after. doc_id x \<noteq> doc_id t"
    by (auto simp: image_iff)
  from assms(3,4) have nb: "\<not> member_is t ''user_id'' b" by (simp add: member_is_str)
  from assms(3) have ma: "member_is t ''user_id'' a" by (simp add: member_is_str)
  from others nb assms(1)
  have foreign: "\<forall>x\<in>set (templates db). \<not> (doc_id x = doc_id t \<and> member_is x ''user_id'' b)"
    by auto
  from others(1)
  have first: "\<forall>x\<in>set before. \<not> (doc_id x = doc_id t \<and> member_is x ''user_id'' a)"
    by simp
  note nm = template_get_delete_no_match[OF assms(5) foreign]
  note fd = template_get_delete_found[OF assms(5) assms(1) first refl ma]
  note pb = template_put_no_match[OF assms(5-8) foreign]
  note pa = template_put_outcome[OF assms(5-8) assms(1) first refl ma]
  have 1: "template_operations env db b GET template_id ignored
           = ((Message ''Template not found'', 404), db)" by (rule nm(1))
  have 2: "template_operations env db b DELETE template_id ignored
           = ((Message ''Template not found'', 404), db)" by (rule nm(2))
  have 3: "write_error env template_name = None \<and> write_error env subject = None
            \<and> write_error env body = None \<longrightarrow>
          template_operations env db b PUT template_id data
            = ((Message ''Template not found'', 404), db)"
    unfolding pb by (simp add: values_error_template[symmetric] del: values_error.simps)
  have 4: "template_operations env db a GET template_id ignored
           = ((Document \<lparr>doc_id = str env (doc_id t),
                          created_at = Text (isoformat env (created_at t)),
                          updated_at = map_option (\<lambda>u. Text (isoformat env u)) (updated_at t),
                          members = members t\<rparr>, 200), db)"
    unfolding fd(1) by (simp add: template_json_def)
  have 5: "template_operations env db a DELETE template_id ignored
           = ((Message ''Template deleted successfully'', 200),
              db\<lparr>templates := before @ after\<rparr>)" by (rule fd(2))
  have 6: "write_error env template_name = None \<and> write_error env subject = None
            \<and> write_error env body = None \<longrightarrow>
          template_operations env db a PUT template_id data
            = (if members t ''template_name'' = Some template_name
                  \<and> members t ''subject'' = Some subject \<and> members t ''body'' = Some body
                  \<and> updated_at t = Some (utcnow env)
               then ((Message ''Template not found'', 404), db)
               else ((Message ''Template updated successfully'', 200),
                     db\<lparr>templates := before
                        @ t\<lparr>updated_at := Some (utcnow env),
                         members := (members t)(''template_name'' \<mapsto> template_name,
                                      ''subject'' \<mapsto> subject, ''body'' \<mapsto> body)\<rparr> # after\<rparr>))"
    unfolding pa by (simp add: values_error_template[symmetric] del: values_error.simps)
  have 7: "\<forall>e u. values_error env [(''template_name'', template_name), (''subject'', subject),
                                    (''body'', body)] = Some e \<and> (u = a \<or> u = b) \<longrightarrow>
            template_operations env db u PUT template_id data = ((Message e, 500), db)"
    using pa pb by (auto simp del: values_error.simps)
  have 8: "\<forall>u kvs. kvs \<noteq> []
             \<and> (map_of kvs ''template_name'' = None \<or> map_of kvs ''subject'' = None
                  \<or> map_of kvs ''body'' = None) \<longrightarrow>
            template_operations env db u PUT template_id (JObj kvs)
              = ((Message ''Missing required fields'', 400), db)"
    using template_put_incomplete[OF assms(5)] by blast
  from 1 2 3 4 5 6 7 8 show ?thesis by (intro conjI)
qed

theorem template_owner_only_witness:
  "template_operations example_env example_db bob_id GET welcome_id JNull
     = ((Message ''Template not found'', 404), example_db)
   \<and> template_operations example_env example_db bob_id DELETE welcome_id JNull
     = ((Message ''Template not found'', 404), example_db)
   \<and> template_operations example_env example_db bob_id PUT welcome_id welcome_data
     = ((Message ''Template not found'', 404), example_db)
   \<and> template_operations example_env example_db alice_id GET welcome_id JNull
     = ((Document \<lparr>doc_id = welcome_id, created_at = Text ''1970-01-01T00:00:01'',
                    updated_at = None, members = members welcome_template\<rparr>, 200), example_db)
   \<and> template_operations example_env example_db alice_id DELETE welcome_id JNull
     = ((Message ''Template deleted successfully'', 200), example_db\<lparr>templates := []\<rparr>)
   \<and> template_operations example_env example_db alice_id PUT welcome_id welcome_data
     = ((Message ''Template updated successfully'', 200),
        example_db\<lparr>templates := [welcome_template\<lparr>updated_at := Some 1000\<rparr>]\<rparr>)
   \<and> template_operations example_env example_db alice_id PUT welcome_id
        (JObj [(''template_name'', JStr ''Welcome'')])
     = ((Message ''Missing required fields'', 400), example_db)
   \<and> template_operations example_env example_db alice_id PUT welcome_id
        (JObj [(''template_name'', JStr ''Welcome''), (''subject'', JStr ''Hello''),
               (''body'', JNum 9223372036854775808)])
     = ((Message ''MongoDB can only handle up to 8-byte ints'', 500), example_db)"
proof -
  have h: "templates example_db = [] @ welcome_template # []"
    "distinct (map doc_id (templates example_db))"
    "members welcome_template ''user_id'' = Some (JStr alice_id)"
    "bob_id \<noteq> alice_id"
    "ObjectId example_env (JStr welcome_id) = Inr (doc_id welcome_template)"
    by (simp_all add: example_stores example_template example_ids example_users)
  have e: "str example_env welcome_id = welcome_id"
    "isoformat example_env (created_at welcome_template) = ''1970-01-01T00:00:01''"
    by (simp_all add: example_env_def welcome_template_def)
  have same: "welcome_template\<lparr>updated_at := Some 1000,
                 members := (members welcome_template)(''template_name'' \<mapsto> JStr ''Welcome'',
                     ''subject'' \<mapsto> JStr ''Hello'', ''body'' \<mapsto> JStr ''Dear team'')\<rparr>
              = welcome_template\<lparr>updated_at := Some 1000\<rparr>"
    by (simp add: welcome_template_def)
  note t = template_owner_only[where env = example_env and db = example_db and a = alice_id
      and b = bob_id and template_id = welcome_id and data = welcome_data and ignored = JNull,
      OF h welcome_data_members]
  from t have first: "template_operations example_env example_db bob_id GET welcome_id JNull
     = ((Message ''Template not found'', 404), example_db)
   \<and> template_operations example_env example_db bob_id DELETE welcome_id JNull
     = ((Message ''Template not found'', 404), example_db)
   \<and> template_operations example_env example_db bob_id PUT welcome_id welcome_data
     = ((Message ''Template not found'', 404), example_db)
   \<and> template_operations example_env example_db alice_id GET welcome_id JNull
     = ((Document \<lparr>doc_id = welcome_id, created_at = Text ''1970-01-01T00:00:01'',
                    updated_at = None, members = members welcome_template\<rparr>, 200), example_db)
   \<and> template_operations example_env example_db alice_id DELETE welcome_id JNull
     = ((Message ''Template deleted successfully'', 200), example_db\<lparr>templates := []\<rparr>)
   \<and> template_operations example_env example_db alice_id PUT welcome_id welcome_data
     = ((Message ''Template updated successfully'', 200),
        example_db\<lparr>templates := [welcome_template\<lparr>updated_at := Some 1000\<rparr>]\<rparr>)"
    by (simp add: e example_write_error example_now example_template same)
  from t have second: "template_operations example_env example_db alice_id PUT welcome_id
        (JObj [(''template_name'', JStr ''Welcome'')])
     = ((Message ''Missing required fields'', 400), example_db)"
    by simp
  let ?big = "JObj [(''template_name'', JStr ''Welcome''), (''subject'', JStr ''Hello''),
               (''body'', JNum 9223372036854775808)]"
  have d: "member ?big ''template_name'' = Some (JStr ''Welcome'')"
    "member ?big ''subject'' = Some (JStr ''Hello'')"
    "member ?big ''body'' = Some (JNum 9223372036854775808)"
    by (simp_all add: member_def)
  have v: "values_error example_env [(''template_name'', JStr ''Welcome''),
             (''subject'', JStr ''Hello''), (''body'', JNum 9223372036854775808)]
           = Some ''MongoDB can only handle up to 8-byte ints''"
    by (simp add: example_write_error)
  from template_owner_only[where env = example_env and db = example_db and a = alice_id
      and b = bob_id and template_id = welcome_id and data = ?big and ignored = JNull,
      OF h d] v
  have third: "template_operations example_env example_db alice_id PUT welcome_id ?big
     = ((Message ''MongoDB can only handle up to 8-byte ints'', 500), example_db)"
    by blast
  from first second third show ?thesis by simp
qed

text \<open>
  C1 as stated fails: B's PUT on A's template with a body that lacks \<^verbatim>\<open>body\<close> is answered
  400, not 404; and A's PUT is answered 404, not 200, when it writes the stored values at the
  stored \<^verbatim>\<open>updated_at\<close> time.
\<close>

theorem template_put_counterexample:
  "templates example_db = [welcome_template]
   \<and> members welcome_template ''user_id'' = Some (JStr alice_id)
   \<and> bob_id \<noteq> alice_id
   \<and> ObjectId example_env (JStr welcome_id) = Inr (doc_id welcome_template)
   \<and> template_operations example_env example_db bob_id PUT welcome_id
         (JObj [(''template_name'', JStr ''Mine''), (''subject'', JStr ''Hi'')])
       = ((Message ''Missing required fields'', 400), example_db)
   \<and> templates (updated_db 1000) = [welcome_template\<lparr>updated_at := Some 1000\<rparr>]
   \<and> members (welcome_template\<lparr>updated_at := Some 1000\<rparr>) ''user_id'' = Some (JStr alice_id)
   \<and> doc_id (welcome_template\<lparr>updated_at := Some 1000\<rparr>) = doc_id welcome_template
   \<and> template_operations example_env (updated_db 1000) alice_id PUT welcome_id welcome_data
       = ((Message ''Template not found'', 404), updated_db 1000)"
proof -
  have h: "templates example_db = [welcome_template]
   \<and> members welcome_template ''user_id'' = Some (JStr alice_id)
   \<and> bob_id \<noteq> alice_id
   \<and> ObjectId example_env (JStr welcome_id) = Inr (doc_id welcome_template)"
    by (simp add: example_template example_ids example_users)
       (simp add: example_db_def)
  have one: "template_operations example_env example_db bob_id PUT welcome_id
         (JObj [(''template_name'', JStr ''Mine''), (''subject'', JStr ''Hi'')])
       = ((Message ''Missing required fields'', 400), example_db)"
    by (rule template_put_incomplete[OF example_ids(3)]) simp_all
  have g: "templates (updated_db 1000) = [welcome_template\<lparr>updated_at := Some 1000\<rparr>]
   \<and> members (welcome_template\<lparr>updated_at := Some 1000\<rparr>) ''user_id'' = Some (JStr alice_id)
   \<and> doc_id (welcome_template\<lparr>updated_at := Some 1000\<rparr>) = doc_id welcome_template"
    by (simp add: example_template) (simp add: updated_db_def)
  have b: "\<forall>x\<in>set []. \<not> (doc_id x = welcome_id \<and> member_is x ''user_id'' alice_id)"
    by simp
  have two: "template_operations example_env (updated_db 1000) alice_id PUT welcome_id
       welcome_data = ((Message ''Template not found'', 404), updated_db 1000)"
    unfolding template_put_outcome[OF example_ids(3) welcome_data_members
        example_stores(3)[of 1000] b example_template(4,5)]
    by (simp add: example_write_error example_now example_template)
  from h one g two show ?thesis by simp
qed

section \<open>Identifiers stay unique\<close>

text \<open>
  The collections of a store built by the handlers never hold two documents with the
  same identifier: every handler keeps \<open>unique_ids\<close>. This is the hypothesis on the templates
  collection in the theorem on template ownership.
\<close>

lemma insert_one_distinct:
  "insert_one env coll t f = Inr inserted \<Longrightarrow> distinct (map doc_id coll)
     \<Longrightarrow> distinct (map doc_id (fst inserted))"
  by (auto simp: insert_one_def split: if_splits option.splits)

lemma update_first_ids: "map doc_id (fst (update_first env coll q s t)) = map doc_id coll"
  by (induction coll) (simp_all add: apply_set_def)

lemma update_one_distinct:
  "update_one env coll q s t = Inr result \<Longrightarrow> distinct (map doc_id coll)
     \<Longrightarrow> distinct (map doc_id (fst result))"
  by (auto simp: update_one_def update_first_ids split: option.splits)

lemma delete_first_distinct:
  "distinct (map doc_id coll) \<Longrightarrow> distinct (map doc_id (fst (delete_first env coll q)))"
proof (induction coll)
  case Nil
  then show ?case by simp
next
  case (Cons d ds)
  have "set (fst (delete_first env ds q)) \<subseteq> set ds" for ds :: "'a stored list"
    by (induction ds) auto
  with Cons show ?case by auto
qed

lemma delete_one_distinct:
  "delete_one env coll q = Inr result \<Longrightarrow> distinct (map doc_id coll)
     \<Longrightarrow> distinct (map doc_id (fst result))"
  by (auto simp: delete_one_def delete_first_distinct split: option.splits)

lemma register_unique_ids: "unique_ids db \<Longrightarrow> unique_ids (snd (register env db data))"
  by (auto simp: register_def unique_ids_def catch_def and_then_def
           dest: insert_one_distinct split: option.splits sum.splits if_splits)

lemma create_template_unique_ids:
  "unique_ids db \<Longrightarrow> unique_ids (snd (create_template env db current_user data))"
  by (auto simp: create_template_def unique_ids_def catch_def and_then_def
           dest: insert_one_distinct split: option.splits sum.splits if_splits)

lemma create_task_unique_ids:
  "unique_ids db \<Longrightarrow> unique_ids (snd (create_task env db current_user data))"
  by (auto simp: create_task_def unique_ids_def catch_def and_then_def
           dest: insert_one_distinct split: option.splits sum.splits if_splits)

lemma template_operations_unique_ids:
  "unique_ids db \<Longrightarrow>
     unique_ids (snd (template_operations env db current_user verb template_id data))"
  by (cases verb)
     (auto simp: template_operations_def unique_ids_def catch_def and_then_def
           dest: update_one_distinct delete_one_distinct
           split: option.splits sum.splits if_splits)

lemma task_operations_unique_ids:
  "unique_ids db \<Longrightarrow>
     unique_ids (snd (task_operations env db current_user verb task_id data))"
  by (cases verb)
     (auto simp: task_operations_def unique_ids_def catch_def and_then_def
           dest: update_one_distinct delete_one_distinct
           split: option.splits sum.splits if_splits)

lemma example_db_unique_ids: "unique_ids example_db"
  by (simp add: unique_ids_def example_db_def alice_def bob_def alice_id_def bob_id_def)

end
